theory Spec2Isabelle
  imports Complex_Main
begin

section \<open>Python values\<close>

text \<open>
  A Python \<open>str\<close> is a sequence of Unicode code points, so \<open>len\<close> counts code points.
  The literals of the source are ASCII and are written with \<open>py\<close>.
\<close>

type_synonym pystr = "nat list"

definition py :: "string \<Rightarrow> pystr" where
  "py s = map of_char s"

definition nl :: pystr where
  "nl = [10]"

text \<open>The values stored in the open-ended dictionaries of the result records.\<close>

datatype pyval = PNone | PInt int | PStr pystr

text \<open>A \<open>dict\<close> keeps insertion order; the dictionary displays of the source have distinct keys.\<close>

type_synonym pydict = "(pystr \<times> pyval) list"

text \<open>
  An exception instance: whether its class derives from \<open>Exception\<close> (the handlers of
  the source are all \<open>except Exception\<close>, which \<open>KeyboardInterrupt\<close>, \<open>SystemExit\<close> and
  \<open>GeneratorExit\<close> pass), the class name and \<open>str(e)\<close>.
\<close>

datatype exn = Exn (is_Exception: bool) (exn_class: pystr) (exn_str: pystr)

text \<open>How a call of a top-level function ends for its caller.\<close>

datatype 'a completion = is_Returned: Returned (returned: 'a) | Propagated (propagated: exn)

text \<open>
  The console behind \<open>print\<close>: the code points its encoding can encode, and \<open>str\<close> of
  the \<open>UnicodeEncodeError\<close> it raises for a text it cannot encode. UTF-8 encodes every
  code point but the surrogates; ASCII encodes the code points below 128.
\<close>

record console =
  encodes :: "nat \<Rightarrow> bool"
  encode_error :: "pystr \<Rightarrow> pystr"

definition printable :: "console \<Rightarrow> pystr \<Rightarrow> bool" where
  "printable con s = list_all (encodes con) s"

text \<open>\<open>print(s)\<close>: \<open>None\<close> when it returns, the exception when it raises.\<close>

definition py_print :: "console \<Rightarrow> pystr \<Rightarrow> exn option" where
  "py_print con s =
     (if printable con s then None
      else Some (Exn True (py ''UnicodeEncodeError'') (encode_error con s)))"

text \<open>A sequence of \<open>print\<close> statements stops at the first one that raises.\<close>

fun print_all :: "console \<Rightarrow> pystr list \<Rightarrow> exn option" where
  "print_all con [] = None"
| "print_all con (s # ss) =
     (case py_print con s of Some e \<Rightarrow> Some e | None \<Rightarrow> print_all con ss)"

text \<open>\<open>str.isspace\<close> on one code point, as \<open>str.strip()\<close> without arguments uses it.\<close>

definition py_isspace :: "nat \<Rightarrow> bool" where
  "py_isspace c =
     ((9 \<le> c \<and> c \<le> 13) \<or> (28 \<le> c \<and> c \<le> 32) \<or> c = 133 \<or> c = 160 \<or> c = 5760
      \<or> (8192 \<le> c \<and> c \<le> 8202) \<or> c = 8232 \<or> c = 8233 \<or> c = 8239 \<or> c = 8287
      \<or> c = 12288)"

definition py_strip :: "pystr \<Rightarrow> pystr" where
  "py_strip s = rev (dropWhile py_isspace (rev (dropWhile py_isspace s)))"

text \<open>
  \<open>str.isalnum\<close> on one code point. On ASCII it is the digits and the letters; beyond
  ASCII it reads the Unicode character database, which is the parameter \<open>U\<close>.
\<close>

definition py_isalnum :: "(nat \<Rightarrow> bool) \<Rightarrow> nat \<Rightarrow> bool" where
  "py_isalnum U c =
     (if c < 128 then (48 \<le> c \<and> c \<le> 57) \<or> (65 \<le> c \<and> c \<le> 90) \<or> (97 \<le> c \<and> c \<le> 122)
      else U c)"

text \<open>\<open>sep.join(xs)\<close>.\<close>

fun py_join :: "pystr \<Rightarrow> pystr list \<Rightarrow> pystr" where
  "py_join sep [] = []"
| "py_join sep [x] = x"
| "py_join sep (x # y # ys) = x @ sep @ py_join sep (y # ys)"

text \<open>Decimal digits of a natural number with a fixed width, and \<open>str(n)\<close>.\<close>

definition digit :: "nat \<Rightarrow> nat" where
  "digit d = 48 + d"

definition two_digits :: "nat \<Rightarrow> pystr" where
  "two_digits n = [digit (n div 10 mod 10), digit (n mod 10)]"

definition four_digits :: "nat \<Rightarrow> pystr" where
  "four_digits n = two_digits (n div 100) @ two_digits n"

definition six_digits :: "nat \<Rightarrow> pystr" where
  "six_digits n = two_digits (n div 10000) @ four_digits n"

fun str_of_nat :: "nat \<Rightarrow> pystr" where
  "str_of_nat n = (if n < 10 then [digit n] else str_of_nat (n div 10) @ [digit (n mod 10)])"

declare str_of_nat.simps [simp del]

text \<open>
  A reading of \<open>datetime.now()\<close>. The class keeps \<open>1 \<le> year \<le> 9999\<close>, \<open>1 \<le> month \<le> 12\<close>,
  \<open>1 \<le> day \<le> 31\<close>, \<open>hour < 24\<close>, \<open>minute < 60\<close>, \<open>second < 60\<close> and
  \<open>microsecond < 1000000\<close>; a system clock reads a year of four digits.
\<close>

record datetime =
  year :: nat
  month :: nat
  day :: nat
  hour :: nat
  minute :: nat
  second :: nat
  microsecond :: nat

definition valid_datetime :: "datetime \<Rightarrow> bool" where
  "valid_datetime d =
     (1000 \<le> year d \<and> year d \<le> 9999 \<and> 1 \<le> month d \<and> month d \<le> 12 \<and> 1 \<le> day d \<and> day d \<le> 31
      \<and> hour d < 24 \<and> minute d < 60 \<and> second d < 60 \<and> microsecond d < 1000000)"

text \<open>\<open>d.isoformat()\<close>: the fraction is printed only when the microseconds are not zero.\<close>

definition isoformat :: "datetime \<Rightarrow> pystr" where
  "isoformat d =
     four_digits (year d) @ py ''-'' @ two_digits (month d) @ py ''-'' @ two_digits (day d)
     @ py ''T'' @ two_digits (hour d) @ py '':'' @ two_digits (minute d) @ py '':''
     @ two_digits (second d)
     @ (if microsecond d = 0 then [] else py ''.'' @ six_digits (microsecond d))"

text \<open>\<open>d.strftime("%Y%m%d_%H%M%S")\<close>.\<close>

definition strftime_stamp :: "datetime \<Rightarrow> pystr" where
  "strftime_stamp d =
     four_digits (year d) @ two_digits (month d) @ two_digits (day d) @ py ''_''
     @ two_digits (hour d) @ two_digits (minute d) @ two_digits (second d)"

text \<open>\<open>d.strftime('%Y-%m-%d %H:%M:%S')\<close>.\<close>

definition strftime_banner :: "datetime \<Rightarrow> pystr" where
  "strftime_banner d =
     four_digits (year d) @ py ''-'' @ two_digits (month d) @ py ''-'' @ two_digits (day d)
     @ py '' '' @ two_digits (hour d) @ py '':'' @ two_digits (minute d) @ py '':''
     @ two_digits (second d)"

text \<open>\<open>format(n, ',')\<close>: the decimal digits in groups of three.\<close>

definition three_digits :: "nat \<Rightarrow> pystr" where
  "three_digits n = [digit (n div 100 mod 10), digit (n div 10 mod 10), digit (n mod 10)]"

fun thousands :: "nat \<Rightarrow> pystr" where
  "thousands n =
     (if n < 1000 then str_of_nat n
      else thousands (n div 1000) @ py '','' @ three_digits (n mod 1000))"

declare thousands.simps [simp del]

text \<open>
  \<open>str(d)\<close> of a dictionary, from \<open>repr\<close> of its keys and values. \<open>repr\<close> of a value
  (quoting and escaping by the printability of each code point) is the parameter
  \<open>repr\<close>; a key of the source is an ASCII identifier, printed between apostrophes.
\<close>

definition dict_str :: "(pyval \<Rightarrow> pystr) \<Rightarrow> pydict \<Rightarrow> pystr" where
  "dict_str repr d =
     py ''{'' @ py_join (py '', '') (map (\<lambda>(k, v). [39] @ k @ [39] @ py '': '' @ repr v) d)
     @ py ''}''"

section \<open>The result model\<close>

record agent_response =
  agent_name :: pystr
  timestamp :: pystr
  analysis_type :: pystr
  findings :: pydict
  recommendations :: "pystr list"
  risk_level :: pystr
  confidence_score :: real

record contract_analysis_result =
  contract_info :: pydict
  agent_responses :: "agent_response list"
  consolidated_findings :: pydict
  priority_recommendations :: "pystr list"
  risk_assessment :: pydict
  traceability_map :: "(pystr \<times> pystr) list"
  analysis_timestamp :: pystr

section \<open>The agents\<close>

text \<open>
  What \<open>agent.run(prompt)\<close> gives back: an object with a \<open>content\<close> attribute, or one
  without, of which the orchestrator takes \<open>str(response)\<close>.
\<close>

datatype run_response = WithContent pyval | WithoutContent pystr

text \<open>\<open>agent.run\<close>: a blocking call to the hosted model, which returns or raises.\<close>

type_synonym agent = "pystr \<Rightarrow> exn + run_response"

record contract_analysis_system =
  agents :: "pystr \<rightharpoonup> agent"
  manager_agent :: "agent option"

text \<open>The \<open>name\<close> given to each agent by the \<open>_create_..._agent\<close> methods.\<close>

definition structure_agent_name :: pystr where
  "structure_agent_name = py ''ContractStructureAgent''"

definition legal_agent_name :: pystr where
  "legal_agent_name = py ''LegalFrameworkAgent''"

definition negotiation_agent_name :: pystr where
  "negotiation_agent_name = py ''NegotiationAgent''"

definition manager_agent_name :: pystr where
  "manager_agent_name = py ''ContractAnalysisManager''"

text \<open>The calls of \<open>run\<close> that a run of the orchestrator makes, in order.\<close>

datatype callee = Specialist pystr | Manager

type_synonym call = "callee \<times> pystr"

text \<open>
  \<open>system.agents[key].run(prompt)\<close>: a missing key raises \<open>KeyError\<close> before any call.
\<close>

definition call_specialist ::
  "contract_analysis_system \<Rightarrow> pystr \<Rightarrow> pystr \<Rightarrow> call list \<times> (exn + run_response)" where
  "call_specialist system key prompt =
     (case agents system key of
        None \<Rightarrow> ([], Inl (Exn True (py ''KeyError'') ([39] @ key @ [39])))
      | Some a \<Rightarrow> ([(Specialist key, prompt)], a prompt))"

text \<open>\<open>system.manager_agent.run(prompt)\<close>: \<open>None\<close> has no attribute \<open>run\<close>.\<close>

definition call_manager ::
  "contract_analysis_system \<Rightarrow> pystr \<Rightarrow> call list \<times> (exn + run_response)" where
  "call_manager system prompt =
     (case manager_agent system of
        None \<Rightarrow>
          ([], Inl (Exn True (py ''AttributeError'')
                        ([39] @ py ''NoneType'' @ [39] @ py '' object has no attribute ''
                         @ [39] @ py ''run'' @ [39])))
      | Some a \<Rightarrow> ([(Manager, prompt)], a prompt))"

text \<open>\<open>r.content if hasattr(r, 'content') else str(r)\<close>.\<close>

definition response_content :: "run_response \<Rightarrow> pyval" where
  "response_content r = (case r of WithContent c \<Rightarrow> c | WithoutContent s \<Rightarrow> PStr s)"

section \<open>The orchestrator\<close>

subsection \<open>The prompts\<close>

definition structure_prompt :: "pystr \<Rightarrow> pystr" where
  "structure_prompt contract_text = concat
     [nl,
      py ''    Analyze this contract's structure and organization.'', nl,
      py ''    '', nl,
      py ''    CONTRACT TO ANALYZE:'', nl,
      py ''    '', contract_text, nl,
      py ''    '', nl,
      py ''    Focus on completeness, organization, and structural integrity.'', nl,
      py ''    '']"

definition legal_prompt :: "pystr \<Rightarrow> pystr" where
  "legal_prompt contract_text = concat
     [nl,
      py ''    Conduct legal compliance and risk assessment for this contract. Provide analysis in JSON format.'', nl,
      py ''    '', nl,
      py ''    CONTRACT TO ANALYZE:'', nl,
      py ''    '', contract_text, nl,
      py ''    '', nl,
      py ''    Focus on enforceability, compliance, and legal risk factors.'', nl,
      py ''    '']"

definition negotiation_prompt :: "pystr \<Rightarrow> pystr" where
  "negotiation_prompt contract_text = concat
     [nl,
      py ''    Develop negotiation strategy and optimization recommendations for this contract. Provide analysis in JSON format.'', nl,
      py ''    '', nl,
      py ''    CONTRACT TO ANALYZE:'', nl,
      py ''    '', contract_text, nl,
      py ''    '', nl,
      py ''    Focus on leverage, optimization opportunities, and strategic recommendations.'', nl,
      py ''    '']"

definition consolidation_prompt ::
  "(pyval \<Rightarrow> pystr) \<Rightarrow> pystr \<Rightarrow> agent_response \<Rightarrow> agent_response \<Rightarrow> agent_response \<Rightarrow> pystr" where
  "consolidation_prompt repr contract_name structure_analysis legal_analysis negotiation_analysis =
   concat
     [nl,
      py ''    CONSOLIDATE AND SYNTHESIZE the following agent analyses with FULL TRACEABILITY:'', nl,
      nl,
      py ''    CONTRACT NAME: '', contract_name, nl,
      py ''    '', nl,
      py ''    STRUCTURE AGENT FINDINGS:'', nl,
      py ''    '', dict_str repr (findings structure_analysis), nl,
      py ''    '', nl,
      py ''    LEGAL AGENT FINDINGS: '', nl,
      py ''    '', dict_str repr (findings legal_analysis), nl,
      py ''    '', nl,
      py ''    NEGOTIATION AGENT FINDINGS:'', nl,
      py ''    '', dict_str repr (findings negotiation_analysis), nl,
      py ''    '', nl,
      py ''    Your task as Manager is to:'', nl,
      py ''    1. Synthesize these 3 perspectives into unified insights'', nl,
      py ''    2. Maintain complete traceability to source agents'', nl,
      py ''    3. Resolve conflicts between agent recommendations  '', nl,
      py ''    4. Prioritize actions by business impact and risk'', nl,
      py ''    5. Create implementation roadmap'', nl,
      py ''    '', nl,
      py ''    CRITICAL: Every recommendation must cite which agent(s) contributed to it.'', nl,
      py ''    '']"

subsection \<open>The state of a run\<close>

text \<open>
  What the local state of \<open>analyze_contract\<close> holds between statements: how often
  \<open>datetime.now()\<close> has been read (\<open>clock k\<close> is the \<open>k\<close>-th reading, counted from 0), the
  calls of \<open>run\<close> made so far, and the list \<open>agent_responses\<close>. The text written to the
  console is not kept: a \<open>print\<close> is what may raise.
\<close>

record run_state =
  ticks :: nat
  calls :: "call list"
  responses :: "agent_response list"

subsection \<open>The three specialist stages\<close>

text \<open>
  Each stage is a \<open>try\<close> block (progress line, call, construction and append of the
  response, completion line) and an \<open>except Exception\<close> handler (error line with the
  exception, construction and append of the placeholder). An exception that does not
  derive from \<open>Exception\<close>, and one raised inside the handler, leave the stage.
  A stage gives the response it bound to its local variable, or the exception that left it.
\<close>

definition structure_try ::
  "contract_analysis_system \<Rightarrow> console \<Rightarrow> (nat \<Rightarrow> datetime) \<Rightarrow> pystr \<Rightarrow> run_state
     \<Rightarrow> (exn + agent_response) \<times> run_state" where
  "structure_try system con clock contract_text st =
     (case py_print con ([128203] @ py '' Structure Agent analyzing...'') of
        Some e \<Rightarrow> (Inl e, st)
      | None \<Rightarrow>
          (case call_specialist system (py ''structure'') (structure_prompt contract_text) of
             (made, Inl e) \<Rightarrow> (Inl e, st\<lparr>calls := calls st @ made\<rparr>)
           | (made, Inr structure_response) \<Rightarrow>
               (let structure_analysis =
                      \<lparr>agent_name = py ''ContractStructureAgent'',
                       timestamp = isoformat (clock (ticks st)),
                       analysis_type = py ''structural_analysis'',
                       findings = [(py ''raw_response'', response_content structure_response)],
                       recommendations = [],
                       risk_level = py ''PENDING'',
                       confidence_score = 0.8\<rparr>;
                    st' = st\<lparr>ticks := Suc (ticks st), calls := calls st @ made,
                             responses := responses st @ [structure_analysis]\<rparr>
                in case py_print con ([9989] @ py '' Structure analysis completed'') of
                     Some e \<Rightarrow> (Inl e, st')
                   | None \<Rightarrow> (Inr structure_analysis, st'))))"

definition structure_stage ::
  "contract_analysis_system \<Rightarrow> console \<Rightarrow> (nat \<Rightarrow> datetime) \<Rightarrow> pystr \<Rightarrow> run_state
     \<Rightarrow> (exn + agent_response) \<times> run_state" where
  "structure_stage system con clock contract_text st =
     (case structure_try system con clock contract_text st of
        (Inr structure_analysis, st') \<Rightarrow> (Inr structure_analysis, st')
      | (Inl e, st') \<Rightarrow>
          if \<not> is_Exception e then (Inl e, st')
          else
            (case py_print con ([10060] @ py '' Structure Agent error: '' @ exn_str e) of
               Some e' \<Rightarrow> (Inl e', st')
             | None \<Rightarrow>
                 (let structure_analysis =
                        \<lparr>agent_name = py ''ContractStructureAgent'',
                         timestamp = isoformat (clock (ticks st')),
                         analysis_type = py ''structural_analysis'',
                         findings = [(py ''error'', PStr (exn_str e))],
                         recommendations = [py ''Manual structure review required''],
                         risk_level = py ''HIGH'',
                         confidence_score = 0.3\<rparr>
                  in (Inr structure_analysis,
                      st'\<lparr>ticks := Suc (ticks st'),
                          responses := responses st' @ [structure_analysis]\<rparr>))))"

definition legal_try ::
  "contract_analysis_system \<Rightarrow> console \<Rightarrow> (nat \<Rightarrow> datetime) \<Rightarrow> pystr \<Rightarrow> run_state
     \<Rightarrow> (exn + agent_response) \<times> run_state" where
  "legal_try system con clock contract_text st =
     (case py_print con ([127963, 65039] @ py ''  Legal Agent analyzing...'') of
        Some e \<Rightarrow> (Inl e, st)
      | None \<Rightarrow>
          (case call_specialist system (py ''legal'') (legal_prompt contract_text) of
             (made, Inl e) \<Rightarrow> (Inl e, st\<lparr>calls := calls st @ made\<rparr>)
           | (made, Inr legal_response) \<Rightarrow>
               (let legal_analysis =
                      \<lparr>agent_name = py ''LegalFrameworkAgent'',
                       timestamp = isoformat (clock (ticks st)),
                       analysis_type = py ''legal_compliance'',
                       findings = [(py ''raw_response'', response_content legal_response)],
                       recommendations = [],
                       risk_level = py ''PENDING'',
                       confidence_score = 0.85\<rparr>;
                    st' = st\<lparr>ticks := Suc (ticks st), calls := calls st @ made,
                             responses := responses st @ [legal_analysis]\<rparr>
                in case py_print con ([9989] @ py '' Legal analysis completed'') of
                     Some e \<Rightarrow> (Inl e, st')
                   | None \<Rightarrow> (Inr legal_analysis, st'))))"

definition legal_stage ::
  "contract_analysis_system \<Rightarrow> console \<Rightarrow> (nat \<Rightarrow> datetime) \<Rightarrow> pystr \<Rightarrow> run_state
     \<Rightarrow> (exn + agent_response) \<times> run_state" where
  "legal_stage system con clock contract_text st =
     (case legal_try system con clock contract_text st of
        (Inr legal_analysis, st') \<Rightarrow> (Inr legal_analysis, st')
      | (Inl e, st') \<Rightarrow>
          if \<not> is_Exception e then (Inl e, st')
          else
            (case py_print con ([10060] @ py '' Legal Agent error: '' @ exn_str e) of
               Some e' \<Rightarrow> (Inl e', st')
             | None \<Rightarrow>
                 (let legal_analysis =
                        \<lparr>agent_name = py ''LegalFrameworkAgent'',
                         timestamp = isoformat (clock (ticks st')),
                         analysis_type = py ''legal_compliance'',
                         findings = [(py ''error'', PStr (exn_str e))],
                         recommendations = [py ''Legal review by qualified attorney required''],
                         risk_level = py ''HIGH'',
                         confidence_score = 0.2\<rparr>
                  in (Inr legal_analysis,
                      st'\<lparr>ticks := Suc (ticks st'),
                          responses := responses st' @ [legal_analysis]\<rparr>))))"

definition negotiation_try ::
  "contract_analysis_system \<Rightarrow> console \<Rightarrow> (nat \<Rightarrow> datetime) \<Rightarrow> pystr \<Rightarrow> run_state
     \<Rightarrow> (exn + agent_response) \<times> run_state" where
  "negotiation_try system con clock contract_text st =
     (case py_print con ([128188] @ py '' Negotiation Agent analyzing...'') of
        Some e \<Rightarrow> (Inl e, st)
      | None \<Rightarrow>
          (case call_specialist system (py ''negotiation'') (negotiation_prompt contract_text) of
             (made, Inl e) \<Rightarrow> (Inl e, st\<lparr>calls := calls st @ made\<rparr>)
           | (made, Inr negotiation_response) \<Rightarrow>
               (let negotiation_analysis =
                      \<lparr>agent_name = py ''NegotiationAgent'',
                       timestamp = isoformat (clock (ticks st)),
                       analysis_type = py ''negotiation_strategy'',
                       findings =
                         [(py ''raw_response'', response_content negotiation_response)],
                       recommendations = [],
                       risk_level = py ''PENDING'',
                       confidence_score = 0.75\<rparr>;
                    st' = st\<lparr>ticks := Suc (ticks st), calls := calls st @ made,
                             responses := responses st @ [negotiation_analysis]\<rparr>
                in case py_print con ([9989] @ py '' Negotiation analysis completed'') of
                     Some e \<Rightarrow> (Inl e, st')
                   | None \<Rightarrow> (Inr negotiation_analysis, st'))))"

definition negotiation_stage ::
  "contract_analysis_system \<Rightarrow> console \<Rightarrow> (nat \<Rightarrow> datetime) \<Rightarrow> pystr \<Rightarrow> run_state
     \<Rightarrow> (exn + agent_response) \<times> run_state" where
  "negotiation_stage system con clock contract_text st =
     (case negotiation_try system con clock contract_text st of
        (Inr negotiation_analysis, st') \<Rightarrow> (Inr negotiation_analysis, st')
      | (Inl e, st') \<Rightarrow>
          if \<not> is_Exception e then (Inl e, st')
          else
            (case py_print con ([10060] @ py '' Negotiation Agent error: '' @ exn_str e) of
               Some e' \<Rightarrow> (Inl e', st')
             | None \<Rightarrow>
                 (let negotiation_analysis =
                        \<lparr>agent_name = py ''NegotiationAgent'',
                         timestamp = isoformat (clock (ticks st')),
                         analysis_type = py ''negotiation_strategy'',
                         findings = [(py ''error'', PStr (exn_str e))],
                         recommendations =
                           [py ''Manual negotiation strategy development required''],
                         risk_level = py ''MEDIUM'',
                         confidence_score = 0.4\<rparr>
                  in (Inr negotiation_analysis,
                      st'\<lparr>ticks := Suc (ticks st'),
                          responses := responses st' @ [negotiation_analysis]\<rparr>))))"

subsection \<open>The banner and the phase headers\<close>

definition banner_lines :: "datetime \<Rightarrow> pystr \<Rightarrow> pystr \<Rightarrow> pystr list" where
  "banner_lines started contract_text contract_name =
     [nl @ replicate 80 61,
      [127970] @ py '' CONTRACT ANALYSIS: '' @ contract_name,
      replicate 80 61,
      [128196] @ py '' Contract Length: '' @ thousands (length contract_text)
        @ py '' characters'',
      [9200] @ py '' Analysis Started: '' @ strftime_banner started,
      replicate 80 61]"

definition phase1_lines :: "pystr list" where
  "phase1_lines =
     [nl @ [127959, 65039] @ py ''  PHASE 1: STRUCTURAL ANALYSIS'', replicate 40 45]"

definition phase2_lines :: "pystr list" where
  "phase2_lines =
     [nl @ [9878, 65039] @ py ''  PHASE 2: LEGAL COMPLIANCE ANALYSIS'', replicate 40 45]"

definition phase3_lines :: "pystr list" where
  "phase3_lines =
     [nl @ [129309] @ py '' PHASE 3: NEGOTIATION STRATEGY ANALYSIS'', replicate 40 45]"

definition phase4_lines :: "pystr list" where
  "phase4_lines =
     [nl @ [127919] @ py '' PHASE 4: MANAGEMENT CONSOLIDATION & TRACEABILITY'',
      replicate 40 45]"

subsection \<open>The specialist phases in sequence\<close>

text \<open>
  Phases 1 to 3: each header is printed outside every \<open>try\<close>, so a header that cannot be
  printed ends the run, as does an exception that leaves a stage.
\<close>

definition specialist_stages ::
  "contract_analysis_system \<Rightarrow> console \<Rightarrow> (nat \<Rightarrow> datetime) \<Rightarrow> pystr \<Rightarrow> run_state
     \<Rightarrow> (exn + agent_response \<times> agent_response \<times> agent_response) \<times> run_state" where
  "specialist_stages system con clock contract_text st0 =
     (case print_all con phase1_lines of
        Some e \<Rightarrow> (Inl e, st0)
      | None \<Rightarrow>
     (case structure_stage system con clock contract_text st0 of
        (Inl e, st1) \<Rightarrow> (Inl e, st1)
      | (Inr structure_analysis, st1) \<Rightarrow>
     (case print_all con phase2_lines of
        Some e \<Rightarrow> (Inl e, st1)
      | None \<Rightarrow>
     (case legal_stage system con clock contract_text st1 of
        (Inl e, st2) \<Rightarrow> (Inl e, st2)
      | (Inr legal_analysis, st2) \<Rightarrow>
     (case print_all con phase3_lines of
        Some e \<Rightarrow> (Inl e, st2)
      | None \<Rightarrow>
     (case negotiation_stage system con clock contract_text st2 of
        (Inl e, st3) \<Rightarrow> (Inl e, st3)
      | (Inr negotiation_analysis, st3) \<Rightarrow>
          (Inr (structure_analysis, legal_analysis, negotiation_analysis), st3)))))))"

subsection \<open>The manager stage\<close>

text \<open>
  The \<open>try\<close> block of phase 4 up to the construction of the result: progress line, call,
  completion line.
\<close>

definition manager_try ::
  "contract_analysis_system \<Rightarrow> console \<Rightarrow> pystr \<Rightarrow> call list \<times> (exn + run_response)" where
  "manager_try system con prompt =
     (case py_print con ([128104, 8205, 128188] @ py '' Manager Agent consolidating...'') of
        Some e \<Rightarrow> ([], Inl e)
      | None \<Rightarrow>
          (case call_manager system prompt of
             (made, Inl e) \<Rightarrow> (made, Inl e)
           | (made, Inr manager_response) \<Rightarrow>
               (case py_print con ([9989] @ py '' Management consolidation completed'') of
                  Some e \<Rightarrow> (made, Inl e)
                | None \<Rightarrow> (made, Inr manager_response))))"

definition manager_stage ::
  "contract_analysis_system \<Rightarrow> console \<Rightarrow> (nat \<Rightarrow> datetime) \<Rightarrow> (pyval \<Rightarrow> pystr) \<Rightarrow> pystr \<Rightarrow> pystr
     \<Rightarrow> agent_response \<Rightarrow> agent_response \<Rightarrow> agent_response \<Rightarrow> run_state
     \<Rightarrow> call list \<times> contract_analysis_result completion" where
  "manager_stage system con clock repr contract_text contract_name
     structure_analysis legal_analysis negotiation_analysis st =
     (case print_all con phase4_lines of
        Some e \<Rightarrow> (calls st, Propagated e)
      | None \<Rightarrow>
          (case manager_try system con
                  (consolidation_prompt repr contract_name
                     structure_analysis legal_analysis negotiation_analysis) of
             (made, Inr manager_response) \<Rightarrow>
               (calls st @ made,
                Returned
                  \<lparr>contract_info =
                     [(py ''name'', PStr contract_name),
                      (py ''length'', PInt (int (length contract_text))),
                      (py ''analysis_date'', PStr (isoformat (clock (ticks st))))],
                   agent_responses = responses st,
                   consolidated_findings =
                     [(py ''manager_synthesis'', response_content manager_response)],
                   priority_recommendations = [],
                   risk_assessment = [],
                   traceability_map =
                     [(py ''structure_agent'', py ''ContractStructureAgent''),
                      (py ''legal_agent'', py ''LegalFrameworkAgent''),
                      (py ''negotiation_agent'', py ''NegotiationAgent''),
                      (py ''manager_agent'', py ''ContractAnalysisManager'')],
                   analysis_timestamp = isoformat (clock (Suc (ticks st)))\<rparr>)
           | (made, Inl e) \<Rightarrow>
               if \<not> is_Exception e then (calls st @ made, Propagated e)
               else
                 (case py_print con ([10060] @ py '' Manager Agent error: '' @ exn_str e) of
                    Some e' \<Rightarrow> (calls st @ made, Propagated e')
                  | None \<Rightarrow>
                      (calls st @ made,
                       Returned
                         \<lparr>contract_info =
                            [(py ''name'', PStr contract_name),
                             (py ''length'', PInt (int (length contract_text))),
                             (py ''analysis_date'', PStr (isoformat (clock (ticks st))))],
                          agent_responses = responses st,
                          consolidated_findings =
                            [(py ''error'',
                              PStr (py ''Manager consolidation failed: '' @ exn_str e))],
                          priority_recommendations =
                            [py ''Manual review and consolidation required''],
                          risk_assessment =
                            [(py ''overall_risk'', PStr (py ''UNKNOWN - Analysis incomplete''))],
                          traceability_map =
                            [(py ''structure_agent'', py ''ContractStructureAgent''),
                             (py ''legal_agent'', py ''LegalFrameworkAgent''),
                             (py ''negotiation_agent'', py ''NegotiationAgent''),
                             (py ''manager_agent'', py ''ContractAnalysisManager (FAILED)'')],
                          analysis_timestamp = isoformat (clock (Suc (ticks st)))\<rparr>))))"

subsection \<open>\<open>analyze_contract\<close>\<close>

text \<open>
  The banner is printed outside every \<open>try\<close> and reads the clock first. The function
  gives the calls of \<open>run\<close> made, in order, and how the run ends for the caller: with the
  result, or with the exception that no handler caught.
\<close>

definition analyze_contract ::
  "contract_analysis_system \<Rightarrow> console \<Rightarrow> (nat \<Rightarrow> datetime) \<Rightarrow> (pyval \<Rightarrow> pystr) \<Rightarrow> pystr \<Rightarrow> pystr
     \<Rightarrow> call list \<times> contract_analysis_result completion" where
  "analyze_contract system con clock repr contract_text contract_name =
     (case print_all con (banner_lines (clock 0) contract_text contract_name) of
        Some e \<Rightarrow> ([], Propagated e)
      | None \<Rightarrow>
          (case specialist_stages system con clock contract_text
                  \<lparr>ticks = 1, calls = [], responses = []\<rparr> of
             (Inl e, st) \<Rightarrow> (calls st, Propagated e)
           | (Inr (structure_analysis, legal_analysis, negotiation_analysis), st) \<Rightarrow>
               manager_stage system con clock repr contract_text contract_name
                 structure_analysis legal_analysis negotiation_analysis st))"

subsection \<open>Clean runs\<close>

text \<open>
  The outcome of the call of each specialist stage (\<open>Inl\<close> when the lookup or the call
  raises); it depends on the system and the contract text only.
\<close>

definition structure_outcome :: "contract_analysis_system \<Rightarrow> pystr \<Rightarrow> exn + run_response" where
  "structure_outcome system contract_text =
     snd (call_specialist system (py ''structure'') (structure_prompt contract_text))"

definition legal_outcome :: "contract_analysis_system \<Rightarrow> pystr \<Rightarrow> exn + run_response" where
  "legal_outcome system contract_text =
     snd (call_specialist system (py ''legal'') (legal_prompt contract_text))"

definition negotiation_outcome :: "contract_analysis_system \<Rightarrow> pystr \<Rightarrow> exn + run_response" where
  "negotiation_outcome system contract_text =
     snd (call_specialist system (py ''negotiation'') (negotiation_prompt contract_text))"

text \<open>
  An outcome that a handler \<open>except Exception as e\<close> followed by a \<open>print\<close> of \<open>e\<close> turns
  into a placeholder: a returned value, or an exception that derives from \<open>Exception\<close>
  and whose text the console can encode.
\<close>

fun caught :: "console \<Rightarrow> exn + 'a \<Rightarrow> bool" where
  "caught con (Inr x) = True"
| "caught con (Inl e) = (is_Exception e \<and> printable con (exn_str e))"

text \<open>
  The code points beyond ASCII in the banner, the phase headers and the progress lines,
  and a console that encodes these and ASCII.
\<close>

definition analysis_symbols :: "nat list" where
  "analysis_symbols =
     [127970, 128196, 9200, 127959, 65039, 128203, 9989, 10060, 9878, 127963, 129309,
      128188, 127919, 128104, 8205]"

definition good_console :: "console \<Rightarrow> bool" where
  "good_console con =
     (list_all (encodes con) [0..<128] \<and> list_all (encodes con) analysis_symbols)"

text \<open>
  The response each stage binds in a run on such a console: the one of the \<open>try\<close> block
  when the call returned, the one of the handler when it raised. \<open>now\<close> is the reading
  of the clock in the stage.
\<close>

definition structure_response :: "datetime \<Rightarrow> exn + run_response \<Rightarrow> agent_response" where
  "structure_response now outcome =
     (case outcome of
        Inr reply \<Rightarrow>
          \<lparr>agent_name = py ''ContractStructureAgent'', timestamp = isoformat now,
           analysis_type = py ''structural_analysis'',
           findings = [(py ''raw_response'', response_content reply)],
           recommendations = [], risk_level = py ''PENDING'', confidence_score = 0.8\<rparr>
      | Inl e \<Rightarrow>
          \<lparr>agent_name = py ''ContractStructureAgent'', timestamp = isoformat now,
           analysis_type = py ''structural_analysis'',
           findings = [(py ''error'', PStr (exn_str e))],
           recommendations = [py ''Manual structure review required''],
           risk_level = py ''HIGH'', confidence_score = 0.3\<rparr>)"

definition legal_response :: "datetime \<Rightarrow> exn + run_response \<Rightarrow> agent_response" where
  "legal_response now outcome =
     (case outcome of
        Inr reply \<Rightarrow>
          \<lparr>agent_name = py ''LegalFrameworkAgent'', timestamp = isoformat now,
           analysis_type = py ''legal_compliance'',
           findings = [(py ''raw_response'', response_content reply)],
           recommendations = [], risk_level = py ''PENDING'', confidence_score = 0.85\<rparr>
      | Inl e \<Rightarrow>
          \<lparr>agent_name = py ''LegalFrameworkAgent'', timestamp = isoformat now,
           analysis_type = py ''legal_compliance'',
           findings = [(py ''error'', PStr (exn_str e))],
           recommendations = [py ''Legal review by qualified attorney required''],
           risk_level = py ''HIGH'', confidence_score = 0.2\<rparr>)"

definition negotiation_response :: "datetime \<Rightarrow> exn + run_response \<Rightarrow> agent_response" where
  "negotiation_response now outcome =
     (case outcome of
        Inr reply \<Rightarrow>
          \<lparr>agent_name = py ''NegotiationAgent'', timestamp = isoformat now,
           analysis_type = py ''negotiation_strategy'',
           findings = [(py ''raw_response'', response_content reply)],
           recommendations = [], risk_level = py ''PENDING'', confidence_score = 0.75\<rparr>
      | Inl e \<Rightarrow>
          \<lparr>agent_name = py ''NegotiationAgent'', timestamp = isoformat now,
           analysis_type = py ''negotiation_strategy'',
           findings = [(py ''error'', PStr (exn_str e))],
           recommendations = [py ''Manual negotiation strategy development required''],
           risk_level = py ''MEDIUM'', confidence_score = 0.4\<rparr>)"

text \<open>The prompt and the outcome of the manager call in such a run.\<close>

definition manager_prompt ::
  "contract_analysis_system \<Rightarrow> (nat \<Rightarrow> datetime) \<Rightarrow> (pyval \<Rightarrow> pystr) \<Rightarrow> pystr \<Rightarrow> pystr \<Rightarrow> pystr" where
  "manager_prompt system clock repr contract_text contract_name =
     consolidation_prompt repr contract_name
       (structure_response (clock 1) (structure_outcome system contract_text))
       (legal_response (clock 2) (legal_outcome system contract_text))
       (negotiation_response (clock 3) (negotiation_outcome system contract_text))"

definition manager_outcome ::
  "contract_analysis_system \<Rightarrow> (nat \<Rightarrow> datetime) \<Rightarrow> (pyval \<Rightarrow> pystr) \<Rightarrow> pystr \<Rightarrow> pystr
     \<Rightarrow> exn + run_response" where
  "manager_outcome system clock repr contract_text contract_name =
     snd (call_manager system (manager_prompt system clock repr contract_text contract_name))"

subsection \<open>Example systems and consoles\<close>

text \<open>
  \<open>_initialize_agents\<close> fills \<open>agents\<close> under the keys \<open>structure\<close>, \<open>legal\<close> and
  \<open>negotiation\<close> and sets the manager.
\<close>

definition initialized_system :: "agent \<Rightarrow> agent \<Rightarrow> agent \<Rightarrow> agent \<Rightarrow> contract_analysis_system" where
  "initialized_system s l n m =
     \<lparr>agents = [py ''structure'' \<mapsto> s, py ''legal'' \<mapsto> l, py ''negotiation'' \<mapsto> n],
      manager_agent = Some m\<rparr>"

definition failing_agent :: agent where
  "failing_agent prompt = Inl (Exn True (py ''ConnectionError'') (py ''service unavailable''))"

definition replying_agent :: agent where
  "replying_agent prompt = Inr (WithContent (PStr (py ''{risk_level: HIGH}'')))"

text \<open>An agent whose reply has no \<open>content\<close> attribute.\<close>

definition plain_agent :: agent where
  "plain_agent prompt = Inr (WithoutContent (py ''plain reply''))"

text \<open>An agent whose call is interrupted from the keyboard.\<close>

definition interrupted_agent :: agent where
  "interrupted_agent prompt = Inl (Exn False (py ''KeyboardInterrupt'') [])"

definition all_failing_system :: contract_analysis_system where
  "all_failing_system = initialized_system failing_agent failing_agent failing_agent failing_agent"

definition all_replying_system :: contract_analysis_system where
  "all_replying_system =
     initialized_system replying_agent replying_agent replying_agent replying_agent"

definition plain_system :: contract_analysis_system where
  "plain_system = initialized_system plain_agent plain_agent plain_agent plain_agent"

definition interrupted_system :: contract_analysis_system where
  "interrupted_system =
     initialized_system interrupted_agent replying_agent replying_agent replying_agent"

definition manager_interrupted_system :: contract_analysis_system where
  "manager_interrupted_system =
     initialized_system replying_agent replying_agent replying_agent interrupted_agent"

definition example_clock :: "nat \<Rightarrow> datetime" where
  "example_clock k =
     \<lparr>year = 2024, month = 3, day = 9, hour = 14, minute = 5, second = k, microsecond = 0\<rparr>"

text \<open>\<open>repr\<close> on the values of the examples: strings of printable ASCII without apostrophes.\<close>

definition example_repr :: "pyval \<Rightarrow> pystr" where
  "example_repr v =
     (case v of PNone \<Rightarrow> py ''None''
      | PInt i \<Rightarrow> (if i < 0 then py ''-'' else []) @ str_of_nat (nat \<bar>i\<bar>)
      | PStr s \<Rightarrow> [39] @ s @ [39])"

definition example_text :: pystr where
  "example_text = py ''The Supplier shall deliver the goods within 30 days.''"

definition example_name :: pystr where
  "example_name = py ''Supply Agreement''"

text \<open>A name that ends in a lone surrogate, as file names with undecodable bytes give.\<close>

definition surrogate_name :: pystr where
  "surrogate_name = py ''Deal '' @ [55296]"

text \<open>
  \<open>str\<close> of the \<open>UnicodeEncodeError\<close> of a codec, for a text it cannot encode: the codec,
  the first run of code points that cannot be encoded (escaped when it is a single code
  point, as \<open>\xhh\<close>, \<open>\uhhhh\<close> or \<open>\Uhhhhhhhh\<close>), its position, and the reason.
\<close>

definition hex_digit :: "nat \<Rightarrow> nat" where
  "hex_digit d = (if d < 10 then 48 + d else 87 + d)"

definition two_hex :: "nat \<Rightarrow> pystr" where
  "two_hex c = [hex_digit (c div 16 mod 16), hex_digit (c mod 16)]"

definition four_hex :: "nat \<Rightarrow> pystr" where
  "four_hex c = two_hex (c div 256) @ two_hex c"

definition eight_hex :: "nat \<Rightarrow> pystr" where
  "eight_hex c = four_hex (c div 65536) @ four_hex c"

definition py_escape :: "nat \<Rightarrow> pystr" where
  "py_escape c =
     (if c < 256 then [92] @ py ''x'' @ two_hex c
      else if c < 65536 then [92] @ py ''u'' @ four_hex c
      else [92] @ py ''U'' @ eight_hex c)"

definition codec_error :: "pystr \<Rightarrow> pystr \<Rightarrow> (nat \<Rightarrow> bool) \<Rightarrow> pystr \<Rightarrow> pystr" where
  "codec_error codec reason enc s =
     (let start = length (takeWhile enc s);
          bad = takeWhile (\<lambda>c. \<not> enc c) (dropWhile enc s)
      in [39] @ codec @ [39] @ py '' codec can't encode ''
         @ (if length bad = 1
            then py ''character '' @ [39] @ py_escape (hd bad) @ [39] @ py '' in position ''
                 @ str_of_nat start
            else py ''characters in position '' @ str_of_nat start @ py ''-''
                 @ str_of_nat (start + length bad - 1))
         @ py '': '' @ reason)"

text \<open>
  A UTF-8 console, which encodes every code point but the surrogates, and an ASCII
  console.
\<close>

definition utf8_console :: console where
  "utf8_console =
     \<lparr>encodes = (\<lambda>c. c < 55296 \<or> 57343 < c),
      encode_error =
        codec_error (py ''utf-8'') (py ''surrogates not allowed'') (\<lambda>c. c < 55296 \<or> 57343 < c)\<rparr>"


text \<open>
  The conditions under which a run reaches the manager call: the console encodes ASCII
  and the symbols of the progress lines, it can encode the contract name, and each
  specialist call returns or raises what its handler catches and can print.
\<close>

definition reaches_manager ::
  "contract_analysis_system \<Rightarrow> console \<Rightarrow> pystr \<Rightarrow> pystr \<Rightarrow> bool" where
  "reaches_manager system con contract_text contract_name =
     (good_console con \<and> printable con contract_name
      \<and> caught con (structure_outcome system contract_text)
      \<and> caught con (legal_outcome system contract_text)
      \<and> caught con (negotiation_outcome system contract_text))"

section \<open>PDF extraction\<close>

text \<open>
  What the operating system and the PDF reader deliver. Fetching a page from
  \<open>pdf_reader.pages\<close> in the header of the loop can raise (outer sum); so can
  \<open>page.extract_text()\<close> and \<open>page_text.strip()\<close> inside the inner \<open>try\<close> (inner sum).
  Opening the file, constructing the reader and counting the pages can raise as well.
\<close>

type_synonym page_access = "exn + (exn + pystr)"





subsection \<open>Pages that yield text\<close>

text \<open>
  The pages of a document numbered from 1, those that yield text (the extraction returns
  and the text is not empty after stripping), and the marker and text blocks of these.
\<close>

definition numbered_pages :: "page_access list \<Rightarrow> (nat \<times> page_access) list" where
  "numbered_pages pages = zip [1..<Suc (length pages)] pages"









subsection \<open>Example documents\<close>













section \<open>Persistence\<close>

text \<open>
  The environment of \<open>save_analysis_results\<close>: whether each file operation raises
  (\<open>None\<close> when it returns), the clock, the Unicode table behind \<open>isalnum\<close>, and
  \<open>str(Path(output_dir) / filename)\<close>.
\<close>

record save_env =
  mkdir :: "pystr \<Rightarrow> exn option"
  now :: datetime
  unicode_isalnum :: "nat \<Rightarrow> bool"
  path_join :: "pystr \<Rightarrow> pystr \<Rightarrow> pystr"
  asdict :: "contract_analysis_result \<Rightarrow> exn option"
  open_w :: "pystr \<Rightarrow> exn option"
  json_dump :: "contract_analysis_result \<Rightarrow> pystr \<Rightarrow> exn option"

text \<open>What a call has done to the file system and the console, in order.\<close>

datatype effect =
  MadeDir pystr | OpenedForWriting pystr | Dumped contract_analysis_result pystr | Printed pystr

text \<open>
  \<open>result.contract_info['name']\<close> as the iterable of the generator expression: a missing
  key raises \<open>KeyError\<close>, a value that is not a string raises \<open>TypeError\<close>.
\<close>

definition contract_name_of :: "pydict \<Rightarrow> exn + pystr" where
  "contract_name_of info =
     (case map_of info (py ''name'') of
        None \<Rightarrow> Inl (Exn True (py ''KeyError'') ([39] @ py ''name'' @ [39]))
      | Some PNone \<Rightarrow>
          Inl (Exn True (py ''TypeError'')
                   ([39] @ py ''NoneType'' @ [39] @ py '' object is not iterable''))
      | Some (PInt i) \<Rightarrow>
          Inl (Exn True (py ''TypeError'')
                   ([39] @ py ''int'' @ [39] @ py '' object is not iterable''))
      | Some (PStr name) \<Rightarrow> Inr name)"

text \<open>
  The \<open>try\<close> block: the effects, and the path returned or the exception raised in the
  block. The confirmation is printed inside the block, after the file is written.
\<close>

definition save_try ::
  "save_env \<Rightarrow> console \<Rightarrow> contract_analysis_result \<Rightarrow> pystr \<Rightarrow> effect list \<times> (exn + pystr)" where
  "save_try env con result output_dir =
     (case mkdir env output_dir of
        Some e \<Rightarrow> ([], Inl e)
      | None \<Rightarrow>
          (let timestamp = strftime_stamp (now env)
           in case contract_name_of (contract_info result) of
                Inl e \<Rightarrow> ([MadeDir output_dir], Inl e)
              | Inr name \<Rightarrow>
                  (let contract_name_clean =
                         py_strip
                           (filter (\<lambda>c. py_isalnum (unicode_isalnum env) c
                                         \<or> c = 32 \<or> c = 45 \<or> c = 95) name);
                       filename = py ''contract_analysis_'' @ contract_name_clean @ py ''_''
                                  @ timestamp @ py ''.json'';
                       filepath = path_join env output_dir filename
                   in case asdict env result of
                        Some e \<Rightarrow> ([MadeDir output_dir], Inl e)
                      | None \<Rightarrow>
                          (case open_w env filepath of
                             Some e \<Rightarrow> ([MadeDir output_dir], Inl e)
                           | None \<Rightarrow>
                               (case json_dump env result filepath of
                                  Some e \<Rightarrow>
                                    ([MadeDir output_dir, OpenedForWriting filepath], Inl e)
                                | None \<Rightarrow>
                                    (case py_print con
                                            ([128190] @ py '' Analysis results saved to: ''
                                             @ filepath) of
                                       Some e \<Rightarrow>
                                         ([MadeDir output_dir, OpenedForWriting filepath,
                                           Dumped result filepath], Inl e)
                                     | None \<Rightarrow>
                                         ([MadeDir output_dir, OpenedForWriting filepath,
                                           Dumped result filepath,
                                           Printed ([128190]
                                                    @ py '' Analysis results saved to: ''
                                                    @ filepath)],
                                          Inr filepath)))))))"

text \<open>
  The function gives the effects and how the call ends for the caller. The handler is
  \<open>except Exception\<close>, and its \<open>print\<close> of the exception can raise.
\<close>

definition save_analysis_results ::
  "save_env \<Rightarrow> console \<Rightarrow> contract_analysis_result \<Rightarrow> pystr
     \<Rightarrow> effect list \<times> pystr option completion" where
  "save_analysis_results env con result output_dir =
     (case save_try env con result output_dir of
        (effects, Inr filepath) \<Rightarrow> (effects, Returned (Some filepath))
      | (effects, Inl e) \<Rightarrow>
          if \<not> is_Exception e then (effects, Propagated e)
          else
            (case py_print con ([10060] @ py '' Error saving analysis results: '' @ exn_str e) of
               Some e' \<Rightarrow> (effects, Propagated e')
             | None \<Rightarrow>
                 (effects @ [Printed ([10060] @ py '' Error saving analysis results: ''
                                   @ exn_str e)],
                  Returned None)))"

definition default_output_dir :: pystr where
  "default_output_dir = py ''analysis_results''"

subsection \<open>The sanitization as the specification words it\<close>

text \<open>
  The specification describes the sanitized name as the contract name without the
  characters that are not alphanumeric, a space, a hyphen or an underscore.
\<close>

definition spec_kept :: "(nat \<Rightarrow> bool) \<Rightarrow> nat \<Rightarrow> bool" where
  "spec_kept U c = (py_isalnum U c \<or> c = 32 \<or> c = 45 \<or> c = 95)"

definition spec_sanitized :: "(nat \<Rightarrow> bool) \<Rightarrow> pystr \<Rightarrow> pystr" where
  "spec_sanitized U name = filter (spec_kept U) name"

text \<open>A console that encodes ASCII and the symbols of the lines of the persistence.\<close>

definition persistence_console :: "console \<Rightarrow> bool" where
  "persistence_console con =
     (list_all (encodes con) [0..<128] \<and> list_all (encodes con) [128190, 10060])"

text \<open>
  A step of the persistence that the handler turns into an absent path: it returns, or
  raises an exception that derives from \<open>Exception\<close> and whose text the console can
  encode.
\<close>

fun handled :: "console \<Rightarrow> exn option \<Rightarrow> bool" where
  "handled con None = True"
| "handled con (Some e) = (is_Exception e \<and> printable con (exn_str e))"

subsection \<open>Example environments\<close>

definition posix_join :: "pystr \<Rightarrow> pystr \<Rightarrow> pystr" where
  "posix_join dir filename = dir @ py ''/'' @ filename"

definition working_env :: save_env where
  "working_env =
     \<lparr>mkdir = (\<lambda>dir. None),
      now = \<lparr>year = 2024, month = 3, day = 9, hour = 14, minute = 5, second = 7,
             microsecond = 0\<rparr>,
      unicode_isalnum = (\<lambda>c. False),
      path_join = posix_join,
      asdict = (\<lambda>result. None),
      open_w = (\<lambda>path. None),
      json_dump = (\<lambda>result path. None)\<rparr>"






definition example_result :: "pystr \<Rightarrow> contract_analysis_result" where
  "example_result name =
     \<lparr>contract_info =
        [(py ''name'', PStr name), (py ''length'', PInt 52),
         (py ''analysis_date'', PStr (py ''2024-03-09T14:05:04''))],
      agent_responses = [],
      consolidated_findings = [(py ''manager_synthesis'', PStr (py ''{risk_level: HIGH}''))],
      priority_recommendations = [],
      risk_assessment = [],
      traceability_map =
        [(py ''structure_agent'', py ''ContractStructureAgent''),
         (py ''legal_agent'', py ''LegalFrameworkAgent''),
         (py ''negotiation_agent'', py ''NegotiationAgent''),
         (py ''manager_agent'', py ''ContractAnalysisManager'')],
      analysis_timestamp = py ''2024-03-09T14:05:05''\<rparr>"

text \<open>A result without a name in its \<open>contract_info\<close>.\<close>

definition nameless_result :: contract_analysis_result where
  "nameless_result = (example_result [])\<lparr>contract_info := []\<rparr>"

text \<open>A directory name with a lone surrogate, as undecodable bytes of a file name give.\<close>

definition surrogate_dir :: pystr where
  "surrogate_dir = py ''out'' @ [56448]"

section \<open>Lemmas about the console\<close>

lemma printable_simps:
  "printable con [] = True"
  "printable con (c # s) = (encodes con c \<and> printable con s)"
  "printable con (a @ b) = (printable con a \<and> printable con b)"
  by (simp_all add: printable_def)

lemma printable_replicate: "encodes con c \<Longrightarrow> printable con (replicate n c)"
  by (simp add: printable_def list_all_iff)

lemma good_console_ascii: "good_console con \<Longrightarrow> c < 128 \<Longrightarrow> encodes con c"
  by (simp add: good_console_def list_all_iff)

lemma good_console_symbols:
  assumes "good_console con"
  shows "encodes con 127970" "encodes con 128196" "encodes con 9200" "encodes con 127959"
    "encodes con 65039" "encodes con 128203" "encodes con 9989" "encodes con 10060"
    "encodes con 9878" "encodes con 127963" "encodes con 129309" "encodes con 128188"
    "encodes con 127919" "encodes con 128104" "encodes con 8205"
  using assms by (simp_all add: good_console_def analysis_symbols_def)

lemma printable_ascii:
  "good_console con \<Longrightarrow> list_all (\<lambda>c. c < 128) s \<Longrightarrow> printable con s"
  by (auto simp add: printable_def list_all_iff good_console_ascii)

lemma printable_py:
  "good_console con \<Longrightarrow> list_all (\<lambda>c. of_char c < (128::nat)) s \<Longrightarrow> printable con (py s)"
  by (rule printable_ascii) (simp_all add: py_def list_all_iff)

lemma mod_10_bound: "(n::nat) mod 10 < 80"
  using mod_less_divisor [of 10 n] by linarith

lemma ascii_digits:
  "list_all (\<lambda>c. c < 128) (two_digits n)"
  "list_all (\<lambda>c. c < 128) (three_digits n)"
  "list_all (\<lambda>c. c < 128) (four_digits n)"
  by (simp_all add: two_digits_def three_digits_def four_digits_def digit_def mod_10_bound)

lemma ascii_str_of_nat: "list_all (\<lambda>c. c < 128) (str_of_nat n)"
proof (induction n rule: str_of_nat.induct)
  case (1 n)
  then show ?case
    by (subst str_of_nat.simps) (simp add: digit_def mod_10_bound)
qed

lemma ascii_thousands: "list_all (\<lambda>c. c < 128) (thousands n)"
proof (induction n rule: thousands.induct)
  case (1 n)
  then show ?case
    by (subst thousands.simps) (simp add: ascii_str_of_nat ascii_digits py_def)
qed

lemma ascii_strftime_banner: "list_all (\<lambda>c. c < 128) (strftime_banner d)"
  by (simp add: strftime_banner_def ascii_digits py_def)

lemma py_print_iff: "py_print con s = None \<longleftrightarrow> printable con s"
  by (simp add: py_print_def)

lemma py_print_raises:
  "\<not> printable con s \<Longrightarrow>
   py_print con s = Some (Exn True (py ''UnicodeEncodeError'') (encode_error con s))"
  by (simp add: py_print_def)

lemma progress_lines_print:
  assumes "good_console con"
  shows "py_print con (128203 # py '' Structure Agent analyzing...'') = None"
    "py_print con (9989 # py '' Structure analysis completed'') = None"
    "py_print con (127963 # 65039 # py ''  Legal Agent analyzing...'') = None"
    "py_print con (9989 # py '' Legal analysis completed'') = None"
    "py_print con (128188 # py '' Negotiation Agent analyzing...'') = None"
    "py_print con (9989 # py '' Negotiation analysis completed'') = None"
    "py_print con (128104 # 8205 # 128188 # py '' Manager Agent consolidating...'') = None"
    "py_print con (9989 # py '' Management consolidation completed'') = None"
  by (simp_all add: py_print_iff printable_simps good_console_symbols [OF assms]
      printable_py [OF assms])

lemma error_lines_printable:
  assumes "good_console con"
  shows "printable con (10060 # py '' Structure Agent error: '' @ m) \<longleftrightarrow> printable con m"
    "printable con (10060 # py '' Legal Agent error: '' @ m) \<longleftrightarrow> printable con m"
    "printable con (10060 # py '' Negotiation Agent error: '' @ m) \<longleftrightarrow> printable con m"
    "printable con (10060 # py '' Manager Agent error: '' @ m) \<longleftrightarrow> printable con m"
  by (simp_all add: printable_simps good_console_symbols [OF assms] printable_py [OF assms])

lemma error_lines_print:
  assumes "good_console con" and "printable con m"
  shows "py_print con (10060 # py '' Structure Agent error: '' @ m) = None"
    "py_print con (10060 # py '' Legal Agent error: '' @ m) = None"
    "py_print con (10060 # py '' Negotiation Agent error: '' @ m) = None"
    "py_print con (10060 # py '' Manager Agent error: '' @ m) = None"
  using assms(2) by (simp_all add: py_print_iff error_lines_printable [OF assms(1)])

lemma phase_headers_print:
  assumes "good_console con"
  shows "print_all con phase1_lines = None" "print_all con phase2_lines = None"
    "print_all con phase3_lines = None" "print_all con phase4_lines = None"
  by (simp_all add: phase1_lines_def phase2_lines_def phase3_lines_def phase4_lines_def
      py_print_def nl_def printable_simps good_console_symbols [OF assms]
      printable_py [OF assms] printable_replicate good_console_ascii [OF assms])

lemma banner_prints:
  assumes "good_console con"
  shows "print_all con (banner_lines d contract_text contract_name) = None
           \<longleftrightarrow> printable con contract_name"
  by (simp add: banner_lines_def py_print_def nl_def printable_simps
      good_console_symbols [OF assms] printable_py [OF assms] printable_replicate
      good_console_ascii [OF assms] printable_ascii [OF assms] ascii_thousands
      ascii_strftime_banner)

section \<open>Lemmas about the orchestrator\<close>

lemma structure_stage_clean:
  assumes "good_console con" and "caught con (structure_outcome system contract_text)"
  shows "structure_stage system con clock contract_text st =
     (Inr (structure_response (clock (ticks st)) (structure_outcome system contract_text)),
      st\<lparr>ticks := Suc (ticks st),
         calls := calls st
           @ fst (call_specialist system (py ''structure'') (structure_prompt contract_text)),
         responses := responses st
           @ [structure_response (clock (ticks st)) (structure_outcome system contract_text)]\<rparr>)"
proof (cases "call_specialist system (py ''structure'') (structure_prompt contract_text)")
  case (Pair made outcome)
  show ?thesis
  proof (cases outcome)
    case (Inl e)
    with Pair assms(2) have "is_Exception e" "printable con (exn_str e)"
      by (simp_all add: structure_outcome_def)
    with Pair Inl show ?thesis
      by (simp add: Let_def structure_stage_def structure_try_def structure_outcome_def structure_response_def
          progress_lines_print [OF assms(1)] error_lines_print [OF assms(1)])
  next
    case (Inr reply)
    with Pair show ?thesis
      by (simp add: Let_def structure_stage_def structure_try_def structure_outcome_def structure_response_def
          progress_lines_print [OF assms(1)])
  qed
qed


lemma legal_stage_clean:
  assumes "good_console con" and "caught con (legal_outcome system contract_text)"
  shows "legal_stage system con clock contract_text st =
     (Inr (legal_response (clock (ticks st)) (legal_outcome system contract_text)),
      st\<lparr>ticks := Suc (ticks st),
         calls := calls st
           @ fst (call_specialist system (py ''legal'') (legal_prompt contract_text)),
         responses := responses st
           @ [legal_response (clock (ticks st)) (legal_outcome system contract_text)]\<rparr>)"
proof (cases "call_specialist system (py ''legal'') (legal_prompt contract_text)")
  case (Pair made outcome)
  show ?thesis
  proof (cases outcome)
    case (Inl e)
    with Pair assms(2) have "is_Exception e" "printable con (exn_str e)"
      by (simp_all add: legal_outcome_def)
    with Pair Inl show ?thesis
      by (simp add: Let_def legal_stage_def legal_try_def legal_outcome_def legal_response_def
          progress_lines_print [OF assms(1)] error_lines_print [OF assms(1)])
  next
    case (Inr reply)
    with Pair show ?thesis
      by (simp add: Let_def legal_stage_def legal_try_def legal_outcome_def legal_response_def
          progress_lines_print [OF assms(1)])
  qed
qed

lemma legal_stage_uncaught:
  assumes "good_console con" and "legal_outcome system contract_text = Inl e"
    and "\<not> is_Exception e"
  shows "legal_stage system con clock contract_text st =
     (Inl e,
      st\<lparr>calls := calls st
           @ fst (call_specialist system (py ''legal'') (legal_prompt contract_text))\<rparr>)"
proof (cases "call_specialist system (py ''legal'') (legal_prompt contract_text)")
  case (Pair made outcome)
  with assms(2, 3) show ?thesis
    by (simp add: Let_def legal_stage_def legal_try_def legal_outcome_def
        progress_lines_print [OF assms(1)])
qed

lemma negotiation_stage_clean:
  assumes "good_console con" and "caught con (negotiation_outcome system contract_text)"
  shows "negotiation_stage system con clock contract_text st =
     (Inr (negotiation_response (clock (ticks st)) (negotiation_outcome system contract_text)),
      st\<lparr>ticks := Suc (ticks st),
         calls := calls st
           @ fst (call_specialist system (py ''negotiation'') (negotiation_prompt contract_text)),
         responses := responses st
           @ [negotiation_response (clock (ticks st)) (negotiation_outcome system contract_text)]\<rparr>)"
proof (cases "call_specialist system (py ''negotiation'') (negotiation_prompt contract_text)")
  case (Pair made outcome)
  show ?thesis
  proof (cases outcome)
    case (Inl e)
    with Pair assms(2) have "is_Exception e" "printable con (exn_str e)"
      by (simp_all add: negotiation_outcome_def)
    with Pair Inl show ?thesis
      by (simp add: Let_def negotiation_stage_def negotiation_try_def negotiation_outcome_def negotiation_response_def
          progress_lines_print [OF assms(1)] error_lines_print [OF assms(1)])
  next
    case (Inr reply)
    with Pair show ?thesis
      by (simp add: Let_def negotiation_stage_def negotiation_try_def negotiation_outcome_def negotiation_response_def
          progress_lines_print [OF assms(1)])
  qed
qed

lemma negotiation_stage_uncaught:
  assumes "good_console con" and "negotiation_outcome system contract_text = Inl e"
    and "\<not> is_Exception e"
  shows "negotiation_stage system con clock contract_text st =
     (Inl e,
      st\<lparr>calls := calls st
           @ fst (call_specialist system (py ''negotiation'') (negotiation_prompt contract_text))\<rparr>)"
proof (cases "call_specialist system (py ''negotiation'') (negotiation_prompt contract_text)")
  case (Pair made outcome)
  with assms(2, 3) show ?thesis
    by (simp add: Let_def negotiation_stage_def negotiation_try_def negotiation_outcome_def
        progress_lines_print [OF assms(1)])
qed

lemma specialist_stages_clean:
  assumes "good_console con"
    and "caught con (structure_outcome system contract_text)"
    and "caught con (legal_outcome system contract_text)"
    and "caught con (negotiation_outcome system contract_text)"
  shows "specialist_stages system con clock contract_text \<lparr>ticks = 1, calls = [], responses = []\<rparr> =
     (Inr (structure_response (clock 1) (structure_outcome system contract_text),
           legal_response (clock 2) (legal_outcome system contract_text),
           negotiation_response (clock 3) (negotiation_outcome system contract_text)),
      \<lparr>ticks = 4,
       calls =
         fst (call_specialist system (py ''structure'') (structure_prompt contract_text))
         @ fst (call_specialist system (py ''legal'') (legal_prompt contract_text))
         @ fst (call_specialist system (py ''negotiation'') (negotiation_prompt contract_text)),
       responses =
         [structure_response (clock 1) (structure_outcome system contract_text),
          legal_response (clock 2) (legal_outcome system contract_text),
          negotiation_response (clock 3) (negotiation_outcome system contract_text)]\<rparr>)"
  by (simp add: specialist_stages_def phase_headers_print [OF assms(1)]
      structure_stage_clean [OF assms(1, 2)] legal_stage_clean [OF assms(1, 3)]
      negotiation_stage_clean [OF assms(1, 4)] eval_nat_numeral)

lemma manager_try_clean:
  assumes "good_console con"
  shows "manager_try system con prompt = call_manager system prompt"
  by (cases "call_manager system prompt"; cases "snd (call_manager system prompt)")
     (simp_all add: manager_try_def progress_lines_print [OF assms])

lemma banner_stops_run:
  assumes "good_console con" and "\<not> printable con contract_name"
  shows "analyze_contract system con clock repr contract_text contract_name =
     ([], Propagated (Exn True (py ''UnicodeEncodeError'')
            (encode_error con ([127970] @ py '' CONTRACT ANALYSIS: '' @ contract_name))))"
proof -
  have first: "py_print con (nl @ replicate 80 61) = None"
    by (simp add: py_print_iff nl_def printable_simps printable_replicate
        good_console_ascii [OF assms(1)])
  have second: "\<not> printable con ([127970] @ py '' CONTRACT ANALYSIS: '' @ contract_name)"
    using assms(2) by (simp add: printable_simps)
  show ?thesis
    by (simp add: analyze_contract_def banner_lines_def first py_print_raises [OF second]
        del: append.simps)
qed

lemma analyze_contract_reaches_manager:
  assumes "reaches_manager system con contract_text contract_name"
  shows "analyze_contract system con clock repr contract_text contract_name =
     manager_stage system con clock repr contract_text contract_name
       (structure_response (clock 1) (structure_outcome system contract_text))
       (legal_response (clock 2) (legal_outcome system contract_text))
       (negotiation_response (clock 3) (negotiation_outcome system contract_text))
       \<lparr>ticks = 4,
        calls =
          fst (call_specialist system (py ''structure'') (structure_prompt contract_text))
          @ fst (call_specialist system (py ''legal'') (legal_prompt contract_text))
          @ fst (call_specialist system (py ''negotiation'')
                  (negotiation_prompt contract_text)),
        responses =
          [structure_response (clock 1) (structure_outcome system contract_text),
           legal_response (clock 2) (legal_outcome system contract_text),
           negotiation_response (clock 3) (negotiation_outcome system contract_text)]\<rparr>"
proof -
  from assms have good: "good_console con" and name: "printable con contract_name"
    and s: "caught con (structure_outcome system contract_text)"
    and l: "caught con (legal_outcome system contract_text)"
    and n: "caught con (negotiation_outcome system contract_text)"
    by (simp_all add: reaches_manager_def)
  have banner: "print_all con (banner_lines (clock 0) contract_text contract_name) = None"
    using name by (simp add: banner_prints [OF good])
  show ?thesis
    unfolding analyze_contract_def banner specialist_stages_clean [OF good s l n]
    by simp
qed



lemma analyze_contract_manager_returned:
  assumes "reaches_manager system con contract_text contract_name"
    and "manager_outcome system clock repr contract_text contract_name = Inr manager_response"
  shows "snd (analyze_contract system con clock repr contract_text contract_name) =
     Returned
       \<lparr>contract_info =
          [(py ''name'', PStr contract_name),
           (py ''length'', PInt (int (length contract_text))),
           (py ''analysis_date'', PStr (isoformat (clock 4)))],
        agent_responses =
          [structure_response (clock 1) (structure_outcome system contract_text),
           legal_response (clock 2) (legal_outcome system contract_text),
           negotiation_response (clock 3) (negotiation_outcome system contract_text)],
        consolidated_findings = [(py ''manager_synthesis'', response_content manager_response)],
        priority_recommendations = [],
        risk_assessment = [],
        traceability_map =
          [(py ''structure_agent'', py ''ContractStructureAgent''),
           (py ''legal_agent'', py ''LegalFrameworkAgent''),
           (py ''negotiation_agent'', py ''NegotiationAgent''),
           (py ''manager_agent'', py ''ContractAnalysisManager'')],
        analysis_timestamp = isoformat (clock 5)\<rparr>"
proof -
  from assms(1) have good: "good_console con" by (simp add: reaches_manager_def)
  obtain made where call: "call_manager system
      (manager_prompt system clock repr contract_text contract_name) = (made, Inr manager_response)"
    using assms(2) by (cases "call_manager system
      (manager_prompt system clock repr contract_text contract_name)")
      (simp add: manager_outcome_def)
  show ?thesis
    using call
    by (simp add: analyze_contract_reaches_manager [OF assms(1)] manager_stage_def
        phase_headers_print [OF good] manager_try_clean [OF good] manager_prompt_def)
qed

lemma analyze_contract_manager_raised:
  assumes "reaches_manager system con contract_text contract_name"
    and "manager_outcome system clock repr contract_text contract_name = Inl e"
    and "is_Exception e" and "printable con (exn_str e)"
  shows "snd (analyze_contract system con clock repr contract_text contract_name) =
     Returned
       \<lparr>contract_info =
          [(py ''name'', PStr contract_name),
           (py ''length'', PInt (int (length contract_text))),
           (py ''analysis_date'', PStr (isoformat (clock 4)))],
        agent_responses =
          [structure_response (clock 1) (structure_outcome system contract_text),
           legal_response (clock 2) (legal_outcome system contract_text),
           negotiation_response (clock 3) (negotiation_outcome system contract_text)],
        consolidated_findings =
          [(py ''error'', PStr (py ''Manager consolidation failed: '' @ exn_str e))],
        priority_recommendations = [py ''Manual review and consolidation required''],
        risk_assessment = [(py ''overall_risk'', PStr (py ''UNKNOWN - Analysis incomplete''))],
        traceability_map =
          [(py ''structure_agent'', py ''ContractStructureAgent''),
           (py ''legal_agent'', py ''LegalFrameworkAgent''),
           (py ''negotiation_agent'', py ''NegotiationAgent''),
           (py ''manager_agent'', py ''ContractAnalysisManager (FAILED)'')],
        analysis_timestamp = isoformat (clock 5)\<rparr>"
proof -
  from assms(1) have good: "good_console con" by (simp add: reaches_manager_def)
  obtain made where call: "call_manager system
      (manager_prompt system clock repr contract_text contract_name) = (made, Inl e)"
    using assms(2) by (cases "call_manager system
      (manager_prompt system clock repr contract_text contract_name)")
      (simp add: manager_outcome_def)
  show ?thesis
    using call assms(3)
    by (simp add: analyze_contract_reaches_manager [OF assms(1)] manager_stage_def
        phase_headers_print [OF good] manager_try_clean [OF good] manager_prompt_def
        error_lines_print [OF good assms(4)])
qed

lemma analyze_contract_manager_uncaught:
  assumes "reaches_manager system con contract_text contract_name"
    and "manager_outcome system clock repr contract_text contract_name = Inl e"
    and "\<not> is_Exception e"
  shows "snd (analyze_contract system con clock repr contract_text contract_name) = Propagated e"
proof -
  from assms(1) have good: "good_console con" by (simp add: reaches_manager_def)
  obtain made where call: "call_manager system
      (manager_prompt system clock repr contract_text contract_name) = (made, Inl e)"
    using assms(2) by (cases "call_manager system
      (manager_prompt system clock repr contract_text contract_name)")
      (simp add: manager_outcome_def)
  show ?thesis
    using call assms(3)
    by (simp add: analyze_contract_reaches_manager [OF assms(1)] manager_stage_def
        phase_headers_print [OF good] manager_try_clean [OF good] manager_prompt_def)
qed



lemma structure_stage_not_caught:
  assumes "good_console con" and "\<not> caught con (structure_outcome system contract_text)"
  shows "isl (fst (structure_stage system con clock contract_text st))"
proof (cases "call_specialist system (py ''structure'') (structure_prompt contract_text)")
  case (Pair made outcome)
  with assms(2) obtain e where e: "outcome = Inl e"
    and bad: "\<not> is_Exception e \<or> \<not> printable con (exn_str e)"
    by (cases outcome) (auto simp add: structure_outcome_def)
  show ?thesis
  proof (cases "is_Exception e")
    case False
    with Pair e show ?thesis
      by (simp add: structure_stage_def structure_try_def progress_lines_print [OF assms(1)])
  next
    case True
    with bad have "\<not> printable con (10060 # py '' Structure Agent error: '' @ exn_str e)"
      by (simp add: error_lines_printable [OF assms(1)])
    then have "py_print con (10060 # py '' Structure Agent error: '' @ exn_str e) \<noteq> None"
      by (simp add: py_print_iff)
    with Pair e True show ?thesis
      by (auto simp add: structure_stage_def structure_try_def progress_lines_print [OF assms(1)])
  qed
qed

lemma legal_stage_not_caught:
  assumes "good_console con" and "\<not> caught con (legal_outcome system contract_text)"
  shows "isl (fst (legal_stage system con clock contract_text st))"
proof (cases "call_specialist system (py ''legal'') (legal_prompt contract_text)")
  case (Pair made outcome)
  with assms(2) obtain e where e: "outcome = Inl e"
    and bad: "\<not> is_Exception e \<or> \<not> printable con (exn_str e)"
    by (cases outcome) (auto simp add: legal_outcome_def)
  show ?thesis
  proof (cases "is_Exception e")
    case False
    with Pair e show ?thesis
      by (simp add: legal_stage_def legal_try_def progress_lines_print [OF assms(1)])
  next
    case True
    with bad have "\<not> printable con (10060 # py '' Legal Agent error: '' @ exn_str e)"
      by (simp add: error_lines_printable [OF assms(1)])
    then have "py_print con (10060 # py '' Legal Agent error: '' @ exn_str e) \<noteq> None"
      by (simp add: py_print_iff)
    with Pair e True show ?thesis
      by (auto simp add: legal_stage_def legal_try_def progress_lines_print [OF assms(1)])
  qed
qed

lemma negotiation_stage_not_caught:
  assumes "good_console con" and "\<not> caught con (negotiation_outcome system contract_text)"
  shows "isl (fst (negotiation_stage system con clock contract_text st))"
proof (cases "call_specialist system (py ''negotiation'') (negotiation_prompt contract_text)")
  case (Pair made outcome)
  with assms(2) obtain e where e: "outcome = Inl e"
    and bad: "\<not> is_Exception e \<or> \<not> printable con (exn_str e)"
    by (cases outcome) (auto simp add: negotiation_outcome_def)
  show ?thesis
  proof (cases "is_Exception e")
    case False
    with Pair e show ?thesis
      by (simp add: negotiation_stage_def negotiation_try_def progress_lines_print [OF assms(1)])
  next
    case True
    with bad have "\<not> printable con (10060 # py '' Negotiation Agent error: '' @ exn_str e)"
      by (simp add: error_lines_printable [OF assms(1)])
    then have "py_print con (10060 # py '' Negotiation Agent error: '' @ exn_str e) \<noteq> None"
      by (simp add: py_print_iff)
    with Pair e True show ?thesis
      by (auto simp add: negotiation_stage_def negotiation_try_def progress_lines_print [OF assms(1)])
  qed
qed

lemma isl_fst_cases:
  "isl (fst x) \<Longrightarrow> (case x of (Inl e, st) \<Rightarrow> f e st | (Inr r, st) \<Rightarrow> g r st) = f (projl (fst x)) (snd x)"
  by (cases x; cases "fst x") auto

lemma specialist_stages_not_clean:
  assumes "good_console con"
    and "\<not> (caught con (structure_outcome system contract_text)
           \<and> caught con (legal_outcome system contract_text)
           \<and> caught con (negotiation_outcome system contract_text))"
  shows "isl (fst (specialist_stages system con clock contract_text st0))"
proof (cases "caught con (structure_outcome system contract_text)")
  case False
  show ?thesis
    using structure_stage_not_caught [OF assms(1) False, of clock st0]
    by (simp add: specialist_stages_def phase_headers_print [OF assms(1)] isl_fst_cases)
next
  case s: True
  show ?thesis
  proof (cases "caught con (legal_outcome system contract_text)")
    case False
    show ?thesis
      using legal_stage_not_caught [OF assms(1) False, of clock]
      by (simp add: specialist_stages_def phase_headers_print [OF assms(1)]
          structure_stage_clean [OF assms(1) s] isl_fst_cases)
  next
    case l: True
    with s assms(2) have n: "\<not> caught con (negotiation_outcome system contract_text)"
      by simp
    show ?thesis
      using negotiation_stage_not_caught [OF assms(1) n, of clock]
      by (simp add: specialist_stages_def phase_headers_print [OF assms(1)]
          structure_stage_clean [OF assms(1) s] legal_stage_clean [OF assms(1) l]
          isl_fst_cases)
  qed
qed

lemma analyze_contract_returns_iff:
  assumes "good_console con"
  shows "is_Returned (snd (analyze_contract system con clock repr contract_text contract_name))
    \<longleftrightarrow> reaches_manager system con contract_text contract_name
        \<and> caught con (manager_outcome system clock repr contract_text contract_name)"
proof (cases "reaches_manager system con contract_text contract_name")
  case True
  show ?thesis
  proof (cases "manager_outcome system clock repr contract_text contract_name")
    case (Inr reply)
    with True show ?thesis
      by (simp add: analyze_contract_manager_returned)
  next
    case (Inl e)
    show ?thesis
    proof (cases "is_Exception e")
      case False
      with True Inl show ?thesis
        by (simp add: analyze_contract_manager_uncaught)
    next
      case exc: True
      show ?thesis
      proof (cases "printable con (exn_str e)")
        case True
        with \<open>reaches_manager system con contract_text contract_name\<close> Inl exc
        show ?thesis
          by (simp add: analyze_contract_manager_raised)
      next
        case False
        obtain made where call: "call_manager system
            (manager_prompt system clock repr contract_text contract_name) = (made, Inl e)"
          using Inl by (cases "call_manager system
            (manager_prompt system clock repr contract_text contract_name)")
            (simp add: manager_outcome_def)
        from False have "py_print con (10060 # py '' Manager Agent error: '' @ exn_str e)
            \<noteq> None"
          by (simp add: py_print_iff error_lines_printable [OF assms])
        with call exc False Inl show ?thesis
          by (auto simp add:
              analyze_contract_reaches_manager
                [OF \<open>reaches_manager system con contract_text contract_name\<close>]
              manager_stage_def phase_headers_print [OF assms] manager_try_clean [OF assms]
              manager_prompt_def)
      qed
    qed
  qed
next
  case False
  show ?thesis
  proof (cases "printable con contract_name")
    case False
    with \<open>\<not> reaches_manager system con contract_text contract_name\<close> show ?thesis
      by (simp add: banner_stops_run [OF assms] reaches_manager_def)
  next
    case True
    with False assms have bad: "\<not> (caught con (structure_outcome system contract_text)
           \<and> caught con (legal_outcome system contract_text)
           \<and> caught con (negotiation_outcome system contract_text))"
      by (simp add: reaches_manager_def)
    have banner: "print_all con (banner_lines (clock 0) contract_text contract_name) = None"
      using True by (simp add: banner_prints [OF assms])
    show ?thesis
      using specialist_stages_not_clean [OF assms bad, of clock
          "\<lparr>ticks = 1, calls = [], responses = []\<rparr>"] False
      unfolding analyze_contract_def banner
      by (simp add: isl_fst_cases)
  qed
qed

lemma analyze_contract_responses:
  assumes "good_console con"
    and "is_Returned (snd (analyze_contract system con clock repr contract_text contract_name))"
  shows "agent_responses
      (returned (snd (analyze_contract system con clock repr contract_text contract_name))) =
     [structure_response (clock 1) (structure_outcome system contract_text),
      legal_response (clock 2) (legal_outcome system contract_text),
      negotiation_response (clock 3) (negotiation_outcome system contract_text)]"
proof -
  from assms have reach: "reaches_manager system con contract_text contract_name"
    and m: "caught con (manager_outcome system clock repr contract_text contract_name)"
    by (simp_all add: analyze_contract_returns_iff)
  show ?thesis
  proof (cases "manager_outcome system clock repr contract_text contract_name")
    case (Inl e)
    with m show ?thesis
      by (simp add: analyze_contract_manager_raised [OF reach Inl])
  next
    case (Inr reply)
    then show ?thesis
      by (simp add: analyze_contract_manager_returned [OF reach Inr])
  qed
qed

lemma analyze_contract_traceability:
  assumes "good_console con"
    and "is_Returned (snd (analyze_contract system con clock repr contract_text contract_name))"
  shows "traceability_map
      (returned (snd (analyze_contract system con clock repr contract_text contract_name))) =
     [(py ''structure_agent'', py ''ContractStructureAgent''),
      (py ''legal_agent'', py ''LegalFrameworkAgent''),
      (py ''negotiation_agent'', py ''NegotiationAgent''),
      (py ''manager_agent'',
       if isl (manager_outcome system clock repr contract_text contract_name)
       then py ''ContractAnalysisManager (FAILED)'' else py ''ContractAnalysisManager'')]"
proof -
  from assms have reach: "reaches_manager system con contract_text contract_name"
    and m: "caught con (manager_outcome system clock repr contract_text contract_name)"
    by (simp_all add: analyze_contract_returns_iff)
  show ?thesis
  proof (cases "manager_outcome system clock repr contract_text contract_name")
    case (Inl e)
    with m show ?thesis
      by (simp add: analyze_contract_manager_raised [OF reach Inl])
  next
    case (Inr reply)
    then show ?thesis
      by (simp add: analyze_contract_manager_returned [OF reach Inr])
  qed
qed

lemma stage_response_identity:
  "agent_name (structure_response dt a) = py ''ContractStructureAgent''"
  "analysis_type (structure_response dt a) = py ''structural_analysis''"
  "agent_name (legal_response dt b) = py ''LegalFrameworkAgent''"
  "analysis_type (legal_response dt b) = py ''legal_compliance''"
  "agent_name (negotiation_response dt c) = py ''NegotiationAgent''"
  "analysis_type (negotiation_response dt c) = py ''negotiation_strategy''"
  by (simp_all add: structure_response_def legal_response_def negotiation_response_def
      split: sum.splits)

lemma traceability_keys_distinct:
  "distinct [py ''structure_agent'', py ''legal_agent'', py ''negotiation_agent'',
             py ''manager_agent'']"
  by (simp add: py_def)

lemma traceability_lookup:
  "map_of [(py ''structure_agent'', a), (py ''legal_agent'', b), (py ''negotiation_agent'', c),
           (py ''manager_agent'', d)] (py ''structure_agent'') = Some a"
  "map_of [(py ''structure_agent'', a), (py ''legal_agent'', b), (py ''negotiation_agent'', c),
           (py ''manager_agent'', d)] (py ''legal_agent'') = Some b"
  "map_of [(py ''structure_agent'', a), (py ''legal_agent'', b), (py ''negotiation_agent'', c),
           (py ''manager_agent'', d)] (py ''negotiation_agent'') = Some c"
  "map_of [(py ''structure_agent'', a), (py ''legal_agent'', b), (py ''negotiation_agent'', c),
           (py ''manager_agent'', d)] (py ''manager_agent'') = Some d"
  by (simp_all add: py_def)

lemma py_literal_facts:
  "py ''raw_response'' \<noteq> py ''error''"
  "py ''manager_synthesis'' \<noteq> py ''error''"
  "py ''UNKNOWN - Analysis incomplete'' \<noteq> py ''UNKNOWN''"
  "py ''ContractAnalysisManager (FAILED)'' = py ''ContractAnalysisManager'' @ py '' (FAILED)''"
  by (simp_all add: py_def)

section \<open>The example runs\<close>

lemma utf8_console_good: "good_console utf8_console"
  by (simp add: good_console_def utf8_console_def analysis_symbols_def list_all_iff)

lemma utf8_console_prints:
  "printable utf8_console example_name"
  "printable utf8_console (py ''service unavailable'')"
  "\<not> printable utf8_console surrogate_name"
  by (simp_all add: printable_def utf8_console_def example_name_def surrogate_name_def py_def)

lemma initialized_system_agents:
  "agents (initialized_system s l n m) (py ''structure'') = Some s"
  "agents (initialized_system s l n m) (py ''legal'') = Some l"
  "agents (initialized_system s l n m) (py ''negotiation'') = Some n"
  "manager_agent (initialized_system s l n m) = Some m"
  by (simp_all add: initialized_system_def py_def)

lemma initialized_system_outcomes:
  "structure_outcome (initialized_system s l n m) t = s (structure_prompt t)"
  "legal_outcome (initialized_system s l n m) t = l (legal_prompt t)"
  "negotiation_outcome (initialized_system s l n m) t = n (negotiation_prompt t)"
  "manager_outcome (initialized_system s l n m) c r t nm =
     m (manager_prompt (initialized_system s l n m) c r t nm)"
  by (simp_all add: structure_outcome_def legal_outcome_def negotiation_outcome_def
      manager_outcome_def call_specialist_def call_manager_def initialized_system_agents)

lemma example_outcomes_failing:
  "structure_outcome all_failing_system t =
     Inl (Exn True (py ''ConnectionError'') (py ''service unavailable''))"
  "legal_outcome all_failing_system t =
     Inl (Exn True (py ''ConnectionError'') (py ''service unavailable''))"
  "negotiation_outcome all_failing_system t =
     Inl (Exn True (py ''ConnectionError'') (py ''service unavailable''))"
  "manager_outcome all_failing_system c r t n =
     Inl (Exn True (py ''ConnectionError'') (py ''service unavailable''))"
  by (simp_all add: all_failing_system_def initialized_system_outcomes failing_agent_def)

lemma example_outcomes_replying:
  "structure_outcome all_replying_system t = Inr (WithContent (PStr (py ''{risk_level: HIGH}'')))"
  "legal_outcome all_replying_system t = Inr (WithContent (PStr (py ''{risk_level: HIGH}'')))"
  "negotiation_outcome all_replying_system t =
     Inr (WithContent (PStr (py ''{risk_level: HIGH}'')))"
  "manager_outcome all_replying_system c r t n =
     Inr (WithContent (PStr (py ''{risk_level: HIGH}'')))"
  by (simp_all add: all_replying_system_def initialized_system_outcomes replying_agent_def)

lemma example_outcomes_plain:
  "structure_outcome plain_system t = Inr (WithoutContent (py ''plain reply''))"
  "legal_outcome plain_system t = Inr (WithoutContent (py ''plain reply''))"
  "negotiation_outcome plain_system t = Inr (WithoutContent (py ''plain reply''))"
  "manager_outcome plain_system c r t n = Inr (WithoutContent (py ''plain reply''))"
  by (simp_all add: plain_system_def initialized_system_outcomes plain_agent_def)

lemma example_outcomes_interrupted:
  "structure_outcome interrupted_system t = Inl (Exn False (py ''KeyboardInterrupt'') [])"
  "structure_outcome manager_interrupted_system t =
     Inr (WithContent (PStr (py ''{risk_level: HIGH}'')))"
  "legal_outcome manager_interrupted_system t =
     Inr (WithContent (PStr (py ''{risk_level: HIGH}'')))"
  "negotiation_outcome manager_interrupted_system t =
     Inr (WithContent (PStr (py ''{risk_level: HIGH}'')))"
  "manager_outcome manager_interrupted_system c r t n =
     Inl (Exn False (py ''KeyboardInterrupt'') [])"
  by (simp_all add: interrupted_system_def manager_interrupted_system_def
      initialized_system_outcomes interrupted_agent_def replying_agent_def)

lemma example_runs_reach_manager:
  "reaches_manager all_failing_system utf8_console example_text example_name"
  "reaches_manager all_replying_system utf8_console example_text example_name"
  "reaches_manager plain_system utf8_console example_text example_name"
  "reaches_manager manager_interrupted_system utf8_console example_text example_name"
  by (simp_all add: reaches_manager_def utf8_console_good utf8_console_prints
      example_outcomes_failing example_outcomes_replying example_outcomes_plain
      example_outcomes_interrupted)

lemma example_runs_return:
  "is_Returned (snd (analyze_contract all_failing_system utf8_console example_clock
      example_repr example_text example_name))"
  "is_Returned (snd (analyze_contract all_replying_system utf8_console example_clock
      example_repr example_text example_name))"
  "is_Returned (snd (analyze_contract plain_system utf8_console example_clock
      example_repr example_text example_name))"
  by (simp_all add: analyze_contract_returns_iff [OF utf8_console_good]
      example_runs_reach_manager example_outcomes_failing example_outcomes_replying
      example_outcomes_plain utf8_console_prints)

lemma stage_response_failed:
  "outcome = Inl e \<Longrightarrow> structure_response dt outcome =
     \<lparr>agent_name = py ''ContractStructureAgent'', timestamp = isoformat dt,
      analysis_type = py ''structural_analysis'',
      findings = [(py ''error'', PStr (exn_str e))],
      recommendations = [py ''Manual structure review required''],
      risk_level = py ''HIGH'', confidence_score = 0.3\<rparr>"
  "outcome = Inl e \<Longrightarrow> legal_response dt outcome =
     \<lparr>agent_name = py ''LegalFrameworkAgent'', timestamp = isoformat dt,
      analysis_type = py ''legal_compliance'',
      findings = [(py ''error'', PStr (exn_str e))],
      recommendations = [py ''Legal review by qualified attorney required''],
      risk_level = py ''HIGH'', confidence_score = 0.2\<rparr>"
  "outcome = Inl e \<Longrightarrow> negotiation_response dt outcome =
     \<lparr>agent_name = py ''NegotiationAgent'', timestamp = isoformat dt,
      analysis_type = py ''negotiation_strategy'',
      findings = [(py ''error'', PStr (exn_str e))],
      recommendations = [py ''Manual negotiation strategy development required''],
      risk_level = py ''MEDIUM'', confidence_score = 0.4\<rparr>"
  by (simp_all add: structure_response_def legal_response_def negotiation_response_def)

lemma stage_response_returned:
  "outcome = Inr reply \<Longrightarrow> structure_response dt outcome =
     \<lparr>agent_name = py ''ContractStructureAgent'', timestamp = isoformat dt,
      analysis_type = py ''structural_analysis'',
      findings = [(py ''raw_response'',
                   case reply of WithContent c \<Rightarrow> c | WithoutContent s \<Rightarrow> PStr s)],
      recommendations = [], risk_level = py ''PENDING'', confidence_score = 0.8\<rparr>"
  "outcome = Inr reply \<Longrightarrow> legal_response dt outcome =
     \<lparr>agent_name = py ''LegalFrameworkAgent'', timestamp = isoformat dt,
      analysis_type = py ''legal_compliance'',
      findings = [(py ''raw_response'',
                   case reply of WithContent c \<Rightarrow> c | WithoutContent s \<Rightarrow> PStr s)],
      recommendations = [], risk_level = py ''PENDING'', confidence_score = 0.85\<rparr>"
  "outcome = Inr reply \<Longrightarrow> negotiation_response dt outcome =
     \<lparr>agent_name = py ''NegotiationAgent'', timestamp = isoformat dt,
      analysis_type = py ''negotiation_strategy'',
      findings = [(py ''raw_response'',
                   case reply of WithContent c \<Rightarrow> c | WithoutContent s \<Rightarrow> PStr s)],
      recommendations = [], risk_level = py ''PENDING'', confidence_score = 0.75\<rparr>"
  by (simp_all add: structure_response_def legal_response_def negotiation_response_def
      response_content_def)

lemma stage_yields_placeholder:
  "isl (structure_outcome system contract_text) \<Longrightarrow>
   structure_stage system con clock contract_text st = (Inr a, st') \<Longrightarrow>
     risk_level a = py ''HIGH'' \<and> confidence_score a = 0.3
     \<and> map fst (findings a) = [py ''error''] \<and> responses st' = responses st @ [a]"
  "isl (legal_outcome system contract_text) \<Longrightarrow>
   legal_stage system con clock contract_text st = (Inr a, st') \<Longrightarrow>
     risk_level a = py ''HIGH'' \<and> confidence_score a = 0.2
     \<and> map fst (findings a) = [py ''error''] \<and> responses st' = responses st @ [a]"
  "isl (negotiation_outcome system contract_text) \<Longrightarrow>
   negotiation_stage system con clock contract_text st = (Inr a, st') \<Longrightarrow>
     risk_level a = py ''MEDIUM'' \<and> confidence_score a = 0.4
     \<and> map fst (findings a) = [py ''error''] \<and> responses st' = responses st @ [a]"
  by (auto simp add: structure_stage_def structure_try_def structure_outcome_def
      legal_stage_def legal_try_def legal_outcome_def
      negotiation_stage_def negotiation_try_def negotiation_outcome_def Let_def
      split: option.splits prod.splits sum.splits if_splits)

section \<open>Properties of the orchestrator\<close>

text \<open>
  Claim C1. For every contract text, every name and every combination of stage
  successes and failures, \<open>analyze_contract\<close> returns a result with exactly three agent
  responses in the order structure, legal, negotiation and a traceability map of exactly
  four entries.

  This does not hold for every name: the banner prints the name before the first \<open>try\<close>,
  so on a UTF-8 console a name that ends in a lone surrogate makes the run end with
  \<open>UnicodeEncodeError\<close> before any agent is called, and no result is returned.
\<close>

theorem analyze_contract_surrogate_name_counterexample:
  "fst (analyze_contract all_replying_system utf8_console example_clock example_repr
          example_text surrogate_name) = []
   \<and> \<not> is_Returned (snd (analyze_contract all_replying_system utf8_console example_clock
          example_repr example_text surrogate_name))
   \<and> exn_class (propagated (snd (analyze_contract all_replying_system utf8_console
          example_clock example_repr example_text surrogate_name))) = py ''UnicodeEncodeError''"
  by (simp add: banner_stops_run [OF utf8_console_good utf8_console_prints(3)])

text \<open>
  Claim C1, amended. On a console that encodes ASCII and the symbols of the progress
  lines and can encode the contract name, and when every call returns or raises an
  exception that derives from \<open>Exception\<close> and whose text the console can encode,
  \<open>analyze_contract\<close> returns a result; its agent responses are exactly three, of the
  structure, the legal and the negotiation agent in this order, and its traceability map
  has exactly four entries, under the four distinct role keys.
\<close>

theorem analyze_contract_three_responses_four_entries:
  "reaches_manager system con contract_text contract_name
   \<and> caught con (manager_outcome system clock repr contract_text contract_name) \<longrightarrow>
   (let run = snd (analyze_contract system con clock repr contract_text contract_name)
    in is_Returned run
     \<and> length (agent_responses (returned run)) = 3
     \<and> map agent_name (agent_responses (returned run)) =
         [py ''ContractStructureAgent'', py ''LegalFrameworkAgent'', py ''NegotiationAgent'']
     \<and> map analysis_type (agent_responses (returned run)) =
         [py ''structural_analysis'', py ''legal_compliance'', py ''negotiation_strategy'']
     \<and> length (traceability_map (returned run)) = 4
     \<and> map fst (traceability_map (returned run)) =
         [py ''structure_agent'', py ''legal_agent'', py ''negotiation_agent'',
          py ''manager_agent'']
     \<and> distinct (map fst (traceability_map (returned run))))"
proof (intro impI)
  assume hyp: "reaches_manager system con contract_text contract_name
    \<and> caught con (manager_outcome system clock repr contract_text contract_name)"
  then have good: "good_console con" by (simp add: reaches_manager_def)
  from hyp have ret:
    "is_Returned (snd (analyze_contract system con clock repr contract_text contract_name))"
    by (simp add: analyze_contract_returns_iff [OF good])
  show "let run = snd (analyze_contract system con clock repr contract_text contract_name)
    in is_Returned run
     \<and> length (agent_responses (returned run)) = 3
     \<and> map agent_name (agent_responses (returned run)) =
         [py ''ContractStructureAgent'', py ''LegalFrameworkAgent'', py ''NegotiationAgent'']
     \<and> map analysis_type (agent_responses (returned run)) =
         [py ''structural_analysis'', py ''legal_compliance'', py ''negotiation_strategy'']
     \<and> length (traceability_map (returned run)) = 4
     \<and> map fst (traceability_map (returned run)) =
         [py ''structure_agent'', py ''legal_agent'', py ''negotiation_agent'',
          py ''manager_agent'']
     \<and> distinct (map fst (traceability_map (returned run)))"
    unfolding Let_def analyze_contract_responses [OF good ret]
      analyze_contract_traceability [OF good ret]
    using ret traceability_keys_distinct by (simp add: stage_response_identity)
qed

theorem analyze_contract_three_responses_four_entries_witness:
  "reaches_manager all_failing_system utf8_console example_text example_name
   \<and> caught utf8_console
       (manager_outcome all_failing_system example_clock example_repr example_text example_name)
   \<and> is_Returned (snd (analyze_contract all_failing_system utf8_console example_clock
        example_repr example_text example_name))
   \<and> length (agent_responses (returned (snd (analyze_contract all_failing_system utf8_console
        example_clock example_repr example_text example_name)))) = 3
   \<and> length (traceability_map (returned (snd (analyze_contract all_failing_system
        utf8_console example_clock example_repr example_text example_name)))) = 4"
  using analyze_contract_three_responses_four_entries
    [where system = all_failing_system and con = utf8_console and clock = example_clock
       and repr = example_repr and contract_text = example_text
       and contract_name = example_name]
  by (simp add: Let_def example_runs_reach_manager example_outcomes_failing
      utf8_console_prints)

text \<open>
  Claim C2. Whenever the call of a specialist stage raises, the response produced for
  that stage has risk level \<open>HIGH\<close> for the structure and the legal stage and \<open>MEDIUM\<close>
  for the negotiation stage, and its confidence score (0.3, 0.2, 0.4) is strictly below
  the score (0.8, 0.85, 0.75) that the same stage gets in any run in which its call
  returns. This holds of the response that the stage yields on any console, and of the
  response at the position of the stage in every result returned on a console that
  encodes ASCII and the symbols of the progress lines.
\<close>

theorem failed_stage_risk_and_confidence:
  "(isl (structure_outcome system contract_text)
      \<and> structure_stage system any_console clock contract_text s_state = (Inr structure_analysis, s_state')
      \<longrightarrow> risk_level structure_analysis = py ''HIGH''
        \<and> confidence_score structure_analysis = 0.3 \<and> confidence_score structure_analysis < 0.8)
   \<and> (isl (legal_outcome system contract_text)
      \<and> legal_stage system any_console clock contract_text l_state = (Inr legal_analysis, l_state')
      \<longrightarrow> risk_level legal_analysis = py ''HIGH''
        \<and> confidence_score legal_analysis = 0.2 \<and> confidence_score legal_analysis < 0.85)
   \<and> (isl (negotiation_outcome system contract_text)
      \<and> negotiation_stage system any_console clock contract_text n_state = (Inr negotiation_analysis, n_state')
      \<longrightarrow> risk_level negotiation_analysis = py ''MEDIUM''
        \<and> confidence_score negotiation_analysis = 0.4
        \<and> confidence_score negotiation_analysis < 0.75)
   \<and> (good_console con
      \<and> is_Returned (snd (analyze_contract system con clock repr contract_text contract_name))
      \<and> good_console con'
      \<and> is_Returned (snd (analyze_contract system' con' clock' repr' contract_text'
                             contract_name')) \<longrightarrow>
   (let failed = agent_responses
          (returned (snd (analyze_contract system con clock repr contract_text contract_name)));
        succeeded = agent_responses
          (returned (snd (analyze_contract system' con' clock' repr' contract_text'
                            contract_name')))
    in (isl (structure_outcome system contract_text) \<longrightarrow>
          risk_level (failed ! 0) = py ''HIGH'' \<and> confidence_score (failed ! 0) = 0.3
          \<and> (\<not> isl (structure_outcome system' contract_text') \<longrightarrow>
               confidence_score (succeeded ! 0) = 0.8
               \<and> confidence_score (failed ! 0) < confidence_score (succeeded ! 0)))
     \<and> (isl (legal_outcome system contract_text) \<longrightarrow>
          risk_level (failed ! 1) = py ''HIGH'' \<and> confidence_score (failed ! 1) = 0.2
          \<and> (\<not> isl (legal_outcome system' contract_text') \<longrightarrow>
               confidence_score (succeeded ! 1) = 0.85
               \<and> confidence_score (failed ! 1) < confidence_score (succeeded ! 1)))
     \<and> (isl (negotiation_outcome system contract_text) \<longrightarrow>
          risk_level (failed ! 2) = py ''MEDIUM'' \<and> confidence_score (failed ! 2) = 0.4
          \<and> (\<not> isl (negotiation_outcome system' contract_text') \<longrightarrow>
               confidence_score (succeeded ! 2) = 0.75
               \<and> confidence_score (failed ! 2) < confidence_score (succeeded ! 2)))))"
proof -
  have stages:
    "isl (structure_outcome system contract_text)
      \<and> structure_stage system any_console clock contract_text s_state = (Inr structure_analysis, s_state')
      \<longrightarrow> risk_level structure_analysis = py ''HIGH''
        \<and> confidence_score structure_analysis = 0.3 \<and> confidence_score structure_analysis < 0.8"
    "isl (legal_outcome system contract_text)
      \<and> legal_stage system any_console clock contract_text l_state = (Inr legal_analysis, l_state')
      \<longrightarrow> risk_level legal_analysis = py ''HIGH''
        \<and> confidence_score legal_analysis = 0.2 \<and> confidence_score legal_analysis < 0.85"
    "isl (negotiation_outcome system contract_text)
      \<and> negotiation_stage system any_console clock contract_text n_state = (Inr negotiation_analysis, n_state')
      \<longrightarrow> risk_level negotiation_analysis = py ''MEDIUM''
        \<and> confidence_score negotiation_analysis = 0.4
        \<and> confidence_score negotiation_analysis < 0.75"
    using stage_yields_placeholder(1)
        [of system contract_text any_console clock s_state structure_analysis s_state']
      stage_yields_placeholder(2)
        [of system contract_text any_console clock l_state legal_analysis l_state']
      stage_yields_placeholder(3)
        [of system contract_text any_console clock n_state negotiation_analysis n_state']
    by auto
  have results: "let failed = agent_responses
          (returned (snd (analyze_contract system con clock repr contract_text contract_name)));
        succeeded = agent_responses
          (returned (snd (analyze_contract system' con' clock' repr' contract_text'
                            contract_name')))
    in (isl (structure_outcome system contract_text) \<longrightarrow>
          risk_level (failed ! 0) = py ''HIGH'' \<and> confidence_score (failed ! 0) = 0.3
          \<and> (\<not> isl (structure_outcome system' contract_text') \<longrightarrow>
               confidence_score (succeeded ! 0) = 0.8
               \<and> confidence_score (failed ! 0) < confidence_score (succeeded ! 0)))
     \<and> (isl (legal_outcome system contract_text) \<longrightarrow>
          risk_level (failed ! 1) = py ''HIGH'' \<and> confidence_score (failed ! 1) = 0.2
          \<and> (\<not> isl (legal_outcome system' contract_text') \<longrightarrow>
               confidence_score (succeeded ! 1) = 0.85
               \<and> confidence_score (failed ! 1) < confidence_score (succeeded ! 1)))
     \<and> (isl (negotiation_outcome system contract_text) \<longrightarrow>
          risk_level (failed ! 2) = py ''MEDIUM'' \<and> confidence_score (failed ! 2) = 0.4
          \<and> (\<not> isl (negotiation_outcome system' contract_text') \<longrightarrow>
               confidence_score (succeeded ! 2) = 0.75
               \<and> confidence_score (failed ! 2) < confidence_score (succeeded ! 2)))"
    if good: "good_console con"
      and ret: "is_Returned
        (snd (analyze_contract system con clock repr contract_text contract_name))"
      and good': "good_console con'"
      and ret': "is_Returned
        (snd (analyze_contract system' con' clock' repr' contract_text' contract_name'))"
  proof -
    have s: "isl (structure_outcome system contract_text) \<Longrightarrow>
        risk_level (structure_response dt (structure_outcome system contract_text)) = py ''HIGH''
        \<and> confidence_score (structure_response dt (structure_outcome system contract_text))
            = 0.3" for dt
      by (cases "structure_outcome system contract_text")
         (simp_all add: stage_response_failed)
    have l: "isl (legal_outcome system contract_text) \<Longrightarrow>
        risk_level (legal_response dt (legal_outcome system contract_text)) = py ''HIGH''
        \<and> confidence_score (legal_response dt (legal_outcome system contract_text)) = 0.2"
      for dt
      by (cases "legal_outcome system contract_text") (simp_all add: stage_response_failed)
    have n: "isl (negotiation_outcome system contract_text) \<Longrightarrow>
        risk_level (negotiation_response dt (negotiation_outcome system contract_text))
          = py ''MEDIUM''
        \<and> confidence_score (negotiation_response dt (negotiation_outcome system contract_text))
            = 0.4" for dt
      by (cases "negotiation_outcome system contract_text")
         (simp_all add: stage_response_failed)
    have s': "\<not> isl (structure_outcome system' contract_text') \<Longrightarrow>
        confidence_score (structure_response dt (structure_outcome system' contract_text'))
          = 0.8" for dt
      by (cases "structure_outcome system' contract_text'")
         (simp_all add: stage_response_returned)
    have l': "\<not> isl (legal_outcome system' contract_text') \<Longrightarrow>
        confidence_score (legal_response dt (legal_outcome system' contract_text')) = 0.85"
      for dt
      by (cases "legal_outcome system' contract_text'")
         (simp_all add: stage_response_returned)
    have n': "\<not> isl (negotiation_outcome system' contract_text') \<Longrightarrow>
        confidence_score (negotiation_response dt (negotiation_outcome system' contract_text'))
          = 0.75" for dt
      by (cases "negotiation_outcome system' contract_text'")
         (simp_all add: stage_response_returned)
    show ?thesis
      unfolding Let_def analyze_contract_responses [OF good ret]
        analyze_contract_responses [OF good' ret']
      by (simp add: s l n s' l' n')
  qed
  from stages results show ?thesis by blast
qed

lemma example_stages_yield:
  "fst (structure_stage all_failing_system utf8_console clock example_text st) =
     Inr (structure_response (clock (ticks st))
            (Inl (Exn True (py ''ConnectionError'') (py ''service unavailable''))))"
  "fst (legal_stage all_failing_system utf8_console clock example_text st) =
     Inr (legal_response (clock (ticks st))
            (Inl (Exn True (py ''ConnectionError'') (py ''service unavailable''))))"
  "fst (negotiation_stage all_failing_system utf8_console clock example_text st) =
     Inr (negotiation_response (clock (ticks st))
            (Inl (Exn True (py ''ConnectionError'') (py ''service unavailable''))))"
  by (simp_all add: structure_stage_clean [OF utf8_console_good]
      legal_stage_clean [OF utf8_console_good] negotiation_stage_clean [OF utf8_console_good]
      example_outcomes_failing utf8_console_prints)

theorem failed_stage_risk_and_confidence_witness:
  "isl (structure_outcome all_failing_system example_text)
   \<and> isl (legal_outcome all_failing_system example_text)
   \<and> isl (negotiation_outcome all_failing_system example_text)
   \<and> \<not> isl (structure_outcome all_replying_system example_text)
   \<and> \<not> isl (legal_outcome all_replying_system example_text)
   \<and> \<not> isl (negotiation_outcome all_replying_system example_text)
   \<and> \<not> isl (fst (structure_stage all_failing_system utf8_console example_clock example_text
                   \<lparr>ticks = 1, calls = [], responses = []\<rparr>))
   \<and> \<not> isl (fst (legal_stage all_failing_system utf8_console example_clock example_text
                   \<lparr>ticks = 1, calls = [], responses = []\<rparr>))
   \<and> \<not> isl (fst (negotiation_stage all_failing_system utf8_console example_clock example_text
                   \<lparr>ticks = 1, calls = [], responses = []\<rparr>))
   \<and> risk_level (projr (fst (structure_stage all_failing_system utf8_console example_clock
         example_text \<lparr>ticks = 1, calls = [], responses = []\<rparr>))) = py ''HIGH''
   \<and> risk_level (projr (fst (legal_stage all_failing_system utf8_console example_clock
         example_text \<lparr>ticks = 1, calls = [], responses = []\<rparr>))) = py ''HIGH''
   \<and> risk_level (projr (fst (negotiation_stage all_failing_system utf8_console example_clock
         example_text \<lparr>ticks = 1, calls = [], responses = []\<rparr>))) = py ''MEDIUM''
   \<and> good_console utf8_console
   \<and> is_Returned (snd (analyze_contract all_failing_system utf8_console example_clock
        example_repr example_text example_name))
   \<and> is_Returned (snd (analyze_contract all_replying_system utf8_console example_clock
        example_repr example_text example_name))
   \<and> risk_level (agent_responses (returned (snd (analyze_contract all_failing_system
        utf8_console example_clock example_repr example_text example_name))) ! 0) = py ''HIGH''
   \<and> risk_level (agent_responses (returned (snd (analyze_contract all_failing_system
        utf8_console example_clock example_repr example_text example_name))) ! 1) = py ''HIGH''
   \<and> risk_level (agent_responses (returned (snd (analyze_contract all_failing_system
        utf8_console example_clock example_repr example_text example_name))) ! 2) = py ''MEDIUM''
   \<and> confidence_score (agent_responses (returned (snd (analyze_contract all_failing_system
        utf8_console example_clock example_repr example_text example_name))) ! 0) = 0.3
   \<and> confidence_score (agent_responses (returned (snd (analyze_contract all_failing_system
        utf8_console example_clock example_repr example_text example_name))) ! 1) = 0.2
   \<and> confidence_score (agent_responses (returned (snd (analyze_contract all_failing_system
        utf8_console example_clock example_repr example_text example_name))) ! 2) = 0.4
   \<and> confidence_score (agent_responses (returned (snd (analyze_contract all_replying_system
        utf8_console example_clock example_repr example_text example_name))) ! 0) = 0.8
   \<and> confidence_score (agent_responses (returned (snd (analyze_contract all_replying_system
        utf8_console example_clock example_repr example_text example_name))) ! 1) = 0.85
   \<and> confidence_score (agent_responses (returned (snd (analyze_contract all_replying_system
        utf8_console example_clock example_repr example_text example_name))) ! 2) = 0.75"
  using failed_stage_risk_and_confidence
    [where system = all_failing_system and any_console = utf8_console
       and con = utf8_console and clock = example_clock
       and repr = example_repr and contract_text = example_text
       and contract_name = example_name
       and s_state = "\<lparr>ticks = 1, calls = [], responses = []\<rparr>"
       and l_state = "\<lparr>ticks = 1, calls = [], responses = []\<rparr>"
       and n_state = "\<lparr>ticks = 1, calls = [], responses = []\<rparr>"
       and structure_analysis = "projr (fst (structure_stage all_failing_system utf8_console
         example_clock example_text \<lparr>ticks = 1, calls = [], responses = []\<rparr>))"
       and s_state' = "snd (structure_stage all_failing_system utf8_console
         example_clock example_text \<lparr>ticks = 1, calls = [], responses = []\<rparr>)"
       and legal_analysis = "projr (fst (legal_stage all_failing_system utf8_console
         example_clock example_text \<lparr>ticks = 1, calls = [], responses = []\<rparr>))"
       and l_state' = "snd (legal_stage all_failing_system utf8_console
         example_clock example_text \<lparr>ticks = 1, calls = [], responses = []\<rparr>)"
       and negotiation_analysis = "projr (fst (negotiation_stage all_failing_system
         utf8_console example_clock example_text \<lparr>ticks = 1, calls = [], responses = []\<rparr>))"
       and n_state' = "snd (negotiation_stage all_failing_system utf8_console
         example_clock example_text \<lparr>ticks = 1, calls = [], responses = []\<rparr>)"
       and system' = all_replying_system and con' = utf8_console and clock' = example_clock
       and repr' = example_repr and contract_text' = example_text
       and contract_name' = example_name]
  by (simp add: Let_def prod_eq_iff example_stages_yield example_outcomes_failing
      example_outcomes_replying utf8_console_good example_runs_return)

text \<open>
  Claim C3. Whenever the call of a specialist stage returns, the response of that stage
  stores the model output under the findings key \<open>raw_response\<close> (the \<open>content\<close> of a
  reply that has one, \<open>str\<close> of a reply that has none), has the fixed confidence score of
  the stage (0.8, 0.85, 0.75) and the risk level \<open>PENDING\<close>, whatever the reply contains.
  The result is one returned on a console that encodes ASCII and the symbols of the
  progress lines.
\<close>

theorem returned_stage_wraps_raw_response:
  "good_console con
   \<and> is_Returned (snd (analyze_contract system con clock repr contract_text contract_name))
   \<longrightarrow>
   (let responses = agent_responses
          (returned (snd (analyze_contract system con clock repr contract_text contract_name)))
    in (structure_outcome system contract_text = Inr (WithContent structure_content) \<longrightarrow>
          findings (responses ! 0) = [(py ''raw_response'', structure_content)]
          \<and> confidence_score (responses ! 0) = 0.8
          \<and> risk_level (responses ! 0) = py ''PENDING'')
     \<and> (structure_outcome system contract_text = Inr (WithoutContent structure_str) \<longrightarrow>
          findings (responses ! 0) = [(py ''raw_response'', PStr structure_str)]
          \<and> confidence_score (responses ! 0) = 0.8
          \<and> risk_level (responses ! 0) = py ''PENDING'')
     \<and> (legal_outcome system contract_text = Inr (WithContent legal_content) \<longrightarrow>
          findings (responses ! 1) = [(py ''raw_response'', legal_content)]
          \<and> confidence_score (responses ! 1) = 0.85
          \<and> risk_level (responses ! 1) = py ''PENDING'')
     \<and> (legal_outcome system contract_text = Inr (WithoutContent legal_str) \<longrightarrow>
          findings (responses ! 1) = [(py ''raw_response'', PStr legal_str)]
          \<and> confidence_score (responses ! 1) = 0.85
          \<and> risk_level (responses ! 1) = py ''PENDING'')
     \<and> (negotiation_outcome system contract_text = Inr (WithContent negotiation_content) \<longrightarrow>
          findings (responses ! 2) = [(py ''raw_response'', negotiation_content)]
          \<and> confidence_score (responses ! 2) = 0.75
          \<and> risk_level (responses ! 2) = py ''PENDING'')
     \<and> (negotiation_outcome system contract_text = Inr (WithoutContent negotiation_str) \<longrightarrow>
          findings (responses ! 2) = [(py ''raw_response'', PStr negotiation_str)]
          \<and> confidence_score (responses ! 2) = 0.75
          \<and> risk_level (responses ! 2) = py ''PENDING''))"
proof (intro impI)
  assume hyp: "good_console con
    \<and> is_Returned (snd (analyze_contract system con clock repr contract_text contract_name))"
  show "let responses = agent_responses
          (returned (snd (analyze_contract system con clock repr contract_text contract_name)))
    in (structure_outcome system contract_text = Inr (WithContent structure_content) \<longrightarrow>
          findings (responses ! 0) = [(py ''raw_response'', structure_content)]
          \<and> confidence_score (responses ! 0) = 0.8
          \<and> risk_level (responses ! 0) = py ''PENDING'')
     \<and> (structure_outcome system contract_text = Inr (WithoutContent structure_str) \<longrightarrow>
          findings (responses ! 0) = [(py ''raw_response'', PStr structure_str)]
          \<and> confidence_score (responses ! 0) = 0.8
          \<and> risk_level (responses ! 0) = py ''PENDING'')
     \<and> (legal_outcome system contract_text = Inr (WithContent legal_content) \<longrightarrow>
          findings (responses ! 1) = [(py ''raw_response'', legal_content)]
          \<and> confidence_score (responses ! 1) = 0.85
          \<and> risk_level (responses ! 1) = py ''PENDING'')
     \<and> (legal_outcome system contract_text = Inr (WithoutContent legal_str) \<longrightarrow>
          findings (responses ! 1) = [(py ''raw_response'', PStr legal_str)]
          \<and> confidence_score (responses ! 1) = 0.85
          \<and> risk_level (responses ! 1) = py ''PENDING'')
     \<and> (negotiation_outcome system contract_text = Inr (WithContent negotiation_content) \<longrightarrow>
          findings (responses ! 2) = [(py ''raw_response'', negotiation_content)]
          \<and> confidence_score (responses ! 2) = 0.75
          \<and> risk_level (responses ! 2) = py ''PENDING'')
     \<and> (negotiation_outcome system contract_text = Inr (WithoutContent negotiation_str) \<longrightarrow>
          findings (responses ! 2) = [(py ''raw_response'', PStr negotiation_str)]
          \<and> confidence_score (responses ! 2) = 0.75
          \<and> risk_level (responses ! 2) = py ''PENDING'')"
    unfolding Let_def analyze_contract_responses [OF conjunct1 [OF hyp] conjunct2 [OF hyp]]
    by (simp add: stage_response_returned)
qed

theorem returned_stage_wraps_raw_response_witness:
  "good_console utf8_console
   \<and> is_Returned (snd (analyze_contract all_replying_system utf8_console example_clock
        example_repr example_text example_name))
   \<and> is_Returned (snd (analyze_contract plain_system utf8_console example_clock
        example_repr example_text example_name))
   \<and> structure_outcome all_replying_system example_text =
       Inr (WithContent (PStr (py ''{risk_level: HIGH}'')))
   \<and> legal_outcome all_replying_system example_text =
       Inr (WithContent (PStr (py ''{risk_level: HIGH}'')))
   \<and> negotiation_outcome all_replying_system example_text =
       Inr (WithContent (PStr (py ''{risk_level: HIGH}'')))
   \<and> structure_outcome plain_system example_text = Inr (WithoutContent (py ''plain reply''))
   \<and> legal_outcome plain_system example_text = Inr (WithoutContent (py ''plain reply''))
   \<and> negotiation_outcome plain_system example_text = Inr (WithoutContent (py ''plain reply''))
   \<and> findings (agent_responses (returned (snd (analyze_contract all_replying_system
        utf8_console example_clock example_repr example_text example_name))) ! 0) =
       [(py ''raw_response'', PStr (py ''{risk_level: HIGH}''))]
   \<and> findings (agent_responses (returned (snd (analyze_contract all_replying_system
        utf8_console example_clock example_repr example_text example_name))) ! 1) =
       [(py ''raw_response'', PStr (py ''{risk_level: HIGH}''))]
   \<and> findings (agent_responses (returned (snd (analyze_contract all_replying_system
        utf8_console example_clock example_repr example_text example_name))) ! 2) =
       [(py ''raw_response'', PStr (py ''{risk_level: HIGH}''))]
   \<and> risk_level (agent_responses (returned (snd (analyze_contract all_replying_system
        utf8_console example_clock example_repr example_text example_name))) ! 0) =
       py ''PENDING''
   \<and> findings (agent_responses (returned (snd (analyze_contract plain_system
        utf8_console example_clock example_repr example_text example_name))) ! 0) =
       [(py ''raw_response'', PStr (py ''plain reply''))]
   \<and> findings (agent_responses (returned (snd (analyze_contract plain_system
        utf8_console example_clock example_repr example_text example_name))) ! 1) =
       [(py ''raw_response'', PStr (py ''plain reply''))]
   \<and> findings (agent_responses (returned (snd (analyze_contract plain_system
        utf8_console example_clock example_repr example_text example_name))) ! 2) =
       [(py ''raw_response'', PStr (py ''plain reply''))]"
  using returned_stage_wraps_raw_response
    [where system = all_replying_system and con = utf8_console and clock = example_clock
       and repr = example_repr and contract_text = example_text
       and contract_name = example_name
       and structure_content = "PStr (py ''{risk_level: HIGH}'')"
       and legal_content = "PStr (py ''{risk_level: HIGH}'')"
       and negotiation_content = "PStr (py ''{risk_level: HIGH}'')"]
    returned_stage_wraps_raw_response
    [where system = plain_system and con = utf8_console and clock = example_clock
       and repr = example_repr and contract_text = example_text
       and contract_name = example_name
       and structure_str = "py ''plain reply''" and legal_str = "py ''plain reply''"
       and negotiation_str = "py ''plain reply''"]
  by (simp add: Let_def example_outcomes_replying example_outcomes_plain utf8_console_good
      example_runs_return)

text \<open>
  Claim C10. In every result of \<open>analyze_contract\<close>, whether the manager call returned or
  raised and whether each stage succeeded or failed, the traceability entry of each
  specialist role is the \<open>agent_name\<close> of the response at the matching position:
  \<open>structure_agent\<close> at index 0, \<open>legal_agent\<close> at index 1, \<open>negotiation_agent\<close> at index 2.
  The result is one returned on a console that encodes ASCII and the symbols of the
  progress lines.
\<close>

theorem traceability_matches_agent_names:
  "good_console con
   \<and> is_Returned (snd (analyze_contract system con clock repr contract_text contract_name))
   \<longrightarrow>
   (let result = returned (snd (analyze_contract system con clock repr contract_text
                                  contract_name))
    in map_of (traceability_map result) (py ''structure_agent'') =
         Some (agent_name (agent_responses result ! 0))
     \<and> map_of (traceability_map result) (py ''legal_agent'') =
         Some (agent_name (agent_responses result ! 1))
     \<and> map_of (traceability_map result) (py ''negotiation_agent'') =
         Some (agent_name (agent_responses result ! 2))
     \<and> agent_name (agent_responses result ! 0) = py ''ContractStructureAgent''
     \<and> agent_name (agent_responses result ! 1) = py ''LegalFrameworkAgent''
     \<and> agent_name (agent_responses result ! 2) = py ''NegotiationAgent'')"
proof (intro impI)
  assume hyp: "good_console con
    \<and> is_Returned (snd (analyze_contract system con clock repr contract_text contract_name))"
  show "let result = returned (snd (analyze_contract system con clock repr contract_text
                                  contract_name))
    in map_of (traceability_map result) (py ''structure_agent'') =
         Some (agent_name (agent_responses result ! 0))
     \<and> map_of (traceability_map result) (py ''legal_agent'') =
         Some (agent_name (agent_responses result ! 1))
     \<and> map_of (traceability_map result) (py ''negotiation_agent'') =
         Some (agent_name (agent_responses result ! 2))
     \<and> agent_name (agent_responses result ! 0) = py ''ContractStructureAgent''
     \<and> agent_name (agent_responses result ! 1) = py ''LegalFrameworkAgent''
     \<and> agent_name (agent_responses result ! 2) = py ''NegotiationAgent''"
    unfolding Let_def
      analyze_contract_traceability [OF conjunct1 [OF hyp] conjunct2 [OF hyp]]
      traceability_lookup
      analyze_contract_responses [OF conjunct1 [OF hyp] conjunct2 [OF hyp]]
    by (simp add: stage_response_identity)
qed

theorem traceability_matches_agent_names_witness:
  "good_console utf8_console
   \<and> is_Returned (snd (analyze_contract all_failing_system utf8_console example_clock
        example_repr example_text example_name))
   \<and> is_Returned (snd (analyze_contract all_replying_system utf8_console example_clock
        example_repr example_text example_name))
   \<and> map_of (traceability_map (returned (snd (analyze_contract all_failing_system
        utf8_console example_clock example_repr example_text example_name))))
       (py ''structure_agent'') =
       Some (agent_name (agent_responses (returned (snd (analyze_contract all_failing_system
        utf8_console example_clock example_repr example_text example_name))) ! 0))
   \<and> map_of (traceability_map (returned (snd (analyze_contract all_replying_system
        utf8_console example_clock example_repr example_text example_name))))
       (py ''negotiation_agent'') =
       Some (agent_name (agent_responses (returned (snd (analyze_contract all_replying_system
        utf8_console example_clock example_repr example_text example_name))) ! 2))"
  using traceability_matches_agent_names
    [where system = all_failing_system and con = utf8_console and clock = example_clock
       and repr = example_repr and contract_text = example_text
       and contract_name = example_name]
    traceability_matches_agent_names
    [where system = all_replying_system and con = utf8_console and clock = example_clock
       and repr = example_repr and contract_text = example_text
       and contract_name = example_name]
  by (simp add: Let_def utf8_console_good example_runs_return)

lemma example_manager_failure:
  "snd (analyze_contract all_failing_system utf8_console example_clock example_repr
          example_text example_name) =
     Returned
       \<lparr>contract_info =
          [(py ''name'', PStr example_name),
           (py ''length'', PInt (int (length example_text))),
           (py ''analysis_date'', PStr (isoformat (example_clock 4)))],
        agent_responses =
          [structure_response (example_clock 1) (structure_outcome all_failing_system example_text),
           legal_response (example_clock 2) (legal_outcome all_failing_system example_text),
           negotiation_response (example_clock 3)
             (negotiation_outcome all_failing_system example_text)],
        consolidated_findings =
          [(py ''error'', PStr (py ''Manager consolidation failed: ''
                                 @ py ''service unavailable''))],
        priority_recommendations = [py ''Manual review and consolidation required''],
        risk_assessment = [(py ''overall_risk'', PStr (py ''UNKNOWN - Analysis incomplete''))],
        traceability_map =
          [(py ''structure_agent'', py ''ContractStructureAgent''),
           (py ''legal_agent'', py ''LegalFrameworkAgent''),
           (py ''negotiation_agent'', py ''NegotiationAgent''),
           (py ''manager_agent'', py ''ContractAnalysisManager (FAILED)'')],
        analysis_timestamp = isoformat (example_clock 5)\<rparr>"
  using analyze_contract_manager_raised
    [OF example_runs_reach_manager(1) example_outcomes_failing(4)]
  by (simp add: utf8_console_prints)

lemma example_manager_interrupted:
  "snd (analyze_contract manager_interrupted_system utf8_console example_clock example_repr
          example_text example_name) = Propagated (Exn False (py ''KeyboardInterrupt'') [])"
  using analyze_contract_manager_uncaught
    [OF example_runs_reach_manager(4) example_outcomes_interrupted(5)]
  by simp

text \<open>
  Claim C4. Whenever the manager call raises, \<open>analyze_contract\<close> still returns a result
  whose consolidated findings carry an error entry instead of a synthesis, whose risk
  assessment records an overall risk of \<open>UNKNOWN\<close>, and whose traceability entry for the
  manager is the manager name suffixed with \<open>(FAILED)\<close>, the three specialist entries being
  the same as on manager success.

  Two parts do not hold. The recorded overall risk is the string
  \<open>UNKNOWN - Analysis incomplete\<close>, not \<open>UNKNOWN\<close>; and a manager call that is interrupted
  from the keyboard raises an exception that the handler does not catch, so the run
  returns no result.
\<close>

theorem manager_failure_overall_risk_counterexample:
  "isl (manager_outcome all_failing_system example_clock example_repr example_text
          example_name)
   \<and> is_Returned (snd (analyze_contract all_failing_system utf8_console example_clock
          example_repr example_text example_name))
   \<and> map_of (risk_assessment (returned (snd (analyze_contract all_failing_system utf8_console
          example_clock example_repr example_text example_name)))) (py ''overall_risk'') =
       Some (PStr (py ''UNKNOWN - Analysis incomplete''))
   \<and> map_of (risk_assessment (returned (snd (analyze_contract all_failing_system utf8_console
          example_clock example_repr example_text example_name)))) (py ''overall_risk'') \<noteq>
       Some (PStr (py ''UNKNOWN''))
   \<and> isl (manager_outcome manager_interrupted_system example_clock example_repr example_text
          example_name)
   \<and> \<not> is_Returned (snd (analyze_contract manager_interrupted_system utf8_console
          example_clock example_repr example_text example_name))
   \<and> propagated (snd (analyze_contract manager_interrupted_system utf8_console
          example_clock example_repr example_text example_name)) =
       Exn False (py ''KeyboardInterrupt'') []"
  by (simp add: example_manager_failure example_manager_interrupted example_outcomes_failing
      example_outcomes_interrupted py_literal_facts)

text \<open>
  Claim C4, amended. When the run reaches the manager call and that call raises an
  exception that derives from \<open>Exception\<close> and whose text the console can encode,
  \<open>analyze_contract\<close> returns a result whose consolidated findings are the single entry
  \<open>error\<close> with the text \<open>Manager consolidation failed: \<close> followed by the text of the
  exception, without an entry \<open>manager_synthesis\<close>; whose risk assessment is the single
  entry \<open>overall_risk\<close> with the value \<open>UNKNOWN - Analysis incomplete\<close>; and whose
  traceability entry for the manager is \<open>ContractAnalysisManager (FAILED)\<close>, the manager
  name followed by \<open> (FAILED)\<close>. The entries of the three specialists are
  \<open>ContractStructureAgent\<close>, \<open>LegalFrameworkAgent\<close> and \<open>NegotiationAgent\<close>, as they are in
  every run in which the manager call returns, where the manager entry is
  \<open>ContractAnalysisManager\<close>.
\<close>

theorem manager_failure_gives_partial_result:
  "reaches_manager system con contract_text contract_name
   \<and> manager_outcome system clock repr contract_text contract_name = Inl e
   \<and> is_Exception e \<and> printable con (exn_str e) \<longrightarrow>
   (let run = snd (analyze_contract system con clock repr contract_text contract_name);
        result = returned run
    in is_Returned run
     \<and> consolidated_findings result =
         [(py ''error'', PStr (py ''Manager consolidation failed: '' @ exn_str e))]
     \<and> map_of (consolidated_findings result) (py ''manager_synthesis'') = None
     \<and> risk_assessment result =
         [(py ''overall_risk'', PStr (py ''UNKNOWN - Analysis incomplete''))]
     \<and> priority_recommendations result = [py ''Manual review and consolidation required'']
     \<and> map_of (traceability_map result) (py ''manager_agent'') =
         Some (py ''ContractAnalysisManager (FAILED)'')
     \<and> py ''ContractAnalysisManager (FAILED)'' = manager_agent_name @ py '' (FAILED)''
     \<and> map_of (traceability_map result) (py ''structure_agent'') =
         Some (py ''ContractStructureAgent'')
     \<and> map_of (traceability_map result) (py ''legal_agent'') =
         Some (py ''LegalFrameworkAgent'')
     \<and> map_of (traceability_map result) (py ''negotiation_agent'') =
         Some (py ''NegotiationAgent'')
     \<and> length (traceability_map result) = 4
     \<and> (reaches_manager system' con' contract_text' contract_name'
        \<and> manager_outcome system' clock' repr' contract_text' contract_name' = Inr reply \<longrightarrow>
        (let run' = snd (analyze_contract system' con' clock' repr' contract_text'
                           contract_name');
             result' = returned run'
         in is_Returned run'
          \<and> map_of (traceability_map result') (py ''structure_agent'') =
              Some (py ''ContractStructureAgent'')
          \<and> map_of (traceability_map result') (py ''legal_agent'') =
              Some (py ''LegalFrameworkAgent'')
          \<and> map_of (traceability_map result') (py ''negotiation_agent'') =
              Some (py ''NegotiationAgent'')
          \<and> map_of (traceability_map result') (py ''manager_agent'') =
              Some (py ''ContractAnalysisManager'')
          \<and> length (traceability_map result') = 4)))"
proof (intro impI)
  assume hyp: "reaches_manager system con contract_text contract_name
    \<and> manager_outcome system clock repr contract_text contract_name = Inl e
    \<and> is_Exception e \<and> printable con (exn_str e)"
  then have reach: "reaches_manager system con contract_text contract_name"
    and raised: "manager_outcome system clock repr contract_text contract_name = Inl e"
    and exc: "is_Exception e" and pr: "printable con (exn_str e)"
    by simp_all
  note run = analyze_contract_manager_raised [OF reach raised exc pr]
  have success: "let run' = snd (analyze_contract system' con' clock' repr' contract_text'
                           contract_name');
             result' = returned run'
         in is_Returned run'
          \<and> map_of (traceability_map result') (py ''structure_agent'') =
              Some (py ''ContractStructureAgent'')
          \<and> map_of (traceability_map result') (py ''legal_agent'') =
              Some (py ''LegalFrameworkAgent'')
          \<and> map_of (traceability_map result') (py ''negotiation_agent'') =
              Some (py ''NegotiationAgent'')
          \<and> map_of (traceability_map result') (py ''manager_agent'') =
              Some (py ''ContractAnalysisManager'')
          \<and> length (traceability_map result') = 4"
    if reach': "reaches_manager system' con' contract_text' contract_name'"
      and ret': "manager_outcome system' clock' repr' contract_text' contract_name' = Inr reply"
    unfolding Let_def analyze_contract_manager_returned [OF reach' ret']
    by (simp add: py_def)
  have failure: "is_Returned
        (snd (analyze_contract system con clock repr contract_text contract_name))"
    "consolidated_findings
        (returned (snd (analyze_contract system con clock repr contract_text contract_name))) =
       [(py ''error'', PStr (py ''Manager consolidation failed: '' @ exn_str e))]"
    "map_of (consolidated_findings
        (returned (snd (analyze_contract system con clock repr contract_text contract_name))))
       (py ''manager_synthesis'') = None"
    "risk_assessment
        (returned (snd (analyze_contract system con clock repr contract_text contract_name))) =
       [(py ''overall_risk'', PStr (py ''UNKNOWN - Analysis incomplete''))]"
    "priority_recommendations
        (returned (snd (analyze_contract system con clock repr contract_text contract_name))) =
       [py ''Manual review and consolidation required'']"
    "length (traceability_map
        (returned (snd (analyze_contract system con clock repr contract_text contract_name))))
       = 4"
    by (simp_all add: run py_literal_facts)
  have entries:
    "map_of (traceability_map
        (returned (snd (analyze_contract system con clock repr contract_text contract_name))))
       (py ''manager_agent'') = Some (py ''ContractAnalysisManager (FAILED)'')"
    "map_of (traceability_map
        (returned (snd (analyze_contract system con clock repr contract_text contract_name))))
       (py ''structure_agent'') = Some (py ''ContractStructureAgent'')"
    "map_of (traceability_map
        (returned (snd (analyze_contract system con clock repr contract_text contract_name))))
       (py ''legal_agent'') = Some (py ''LegalFrameworkAgent'')"
    "map_of (traceability_map
        (returned (snd (analyze_contract system con clock repr contract_text contract_name))))
       (py ''negotiation_agent'') = Some (py ''NegotiationAgent'')"
    unfolding run by (simp_all add: py_def)
  have suffix: "py ''ContractAnalysisManager (FAILED)'' = manager_agent_name @ py '' (FAILED)''"
    by (simp add: manager_agent_name_def py_literal_facts)
  show "let run = snd (analyze_contract system con clock repr contract_text contract_name);
        result = returned run
    in is_Returned run
     \<and> consolidated_findings result =
         [(py ''error'', PStr (py ''Manager consolidation failed: '' @ exn_str e))]
     \<and> map_of (consolidated_findings result) (py ''manager_synthesis'') = None
     \<and> risk_assessment result =
         [(py ''overall_risk'', PStr (py ''UNKNOWN - Analysis incomplete''))]
     \<and> priority_recommendations result = [py ''Manual review and consolidation required'']
     \<and> map_of (traceability_map result) (py ''manager_agent'') =
         Some (py ''ContractAnalysisManager (FAILED)'')
     \<and> py ''ContractAnalysisManager (FAILED)'' = manager_agent_name @ py '' (FAILED)''
     \<and> map_of (traceability_map result) (py ''structure_agent'') =
         Some (py ''ContractStructureAgent'')
     \<and> map_of (traceability_map result) (py ''legal_agent'') =
         Some (py ''LegalFrameworkAgent'')
     \<and> map_of (traceability_map result) (py ''negotiation_agent'') =
         Some (py ''NegotiationAgent'')
     \<and> length (traceability_map result) = 4
     \<and> (reaches_manager system' con' contract_text' contract_name'
        \<and> manager_outcome system' clock' repr' contract_text' contract_name' = Inr reply \<longrightarrow>
        (let run' = snd (analyze_contract system' con' clock' repr' contract_text'
                           contract_name');
             result' = returned run'
         in is_Returned run'
          \<and> map_of (traceability_map result') (py ''structure_agent'') =
              Some (py ''ContractStructureAgent'')
          \<and> map_of (traceability_map result') (py ''legal_agent'') =
              Some (py ''LegalFrameworkAgent'')
          \<and> map_of (traceability_map result') (py ''negotiation_agent'') =
              Some (py ''NegotiationAgent'')
          \<and> map_of (traceability_map result') (py ''manager_agent'') =
              Some (py ''ContractAnalysisManager'')
          \<and> length (traceability_map result') = 4))"
    unfolding Let_def using failure entries suffix success unfolding Let_def by blast
qed

theorem manager_failure_gives_partial_result_witness:
  "reaches_manager all_failing_system utf8_console example_text example_name
   \<and> manager_outcome all_failing_system example_clock example_repr example_text example_name =
       Inl (Exn True (py ''ConnectionError'') (py ''service unavailable''))
   \<and> printable utf8_console (py ''service unavailable'')
   \<and> reaches_manager all_replying_system utf8_console example_text example_name
   \<and> manager_outcome all_replying_system example_clock example_repr example_text example_name =
       Inr (WithContent (PStr (py ''{risk_level: HIGH}'')))
   \<and> is_Returned (snd (analyze_contract all_failing_system utf8_console example_clock
        example_repr example_text example_name))
   \<and> consolidated_findings (returned (snd (analyze_contract all_failing_system utf8_console
        example_clock example_repr example_text example_name))) =
       [(py ''error'',
         PStr (py ''Manager consolidation failed: '' @ py ''service unavailable''))]
   \<and> map_of (traceability_map (returned (snd (analyze_contract all_failing_system
        utf8_console example_clock example_repr example_text example_name))))
       (py ''manager_agent'') = Some (py ''ContractAnalysisManager (FAILED)'')
   \<and> map_of (traceability_map (returned (snd (analyze_contract all_failing_system
        utf8_console example_clock example_repr example_text example_name))))
       (py ''legal_agent'') = Some (py ''LegalFrameworkAgent'')
   \<and> map_of (traceability_map (returned (snd (analyze_contract all_replying_system
        utf8_console example_clock example_repr example_text example_name))))
       (py ''legal_agent'') = Some (py ''LegalFrameworkAgent'')
   \<and> map_of (traceability_map (returned (snd (analyze_contract all_replying_system
        utf8_console example_clock example_repr example_text example_name))))
       (py ''manager_agent'') = Some (py ''ContractAnalysisManager'')"
  using manager_failure_gives_partial_result
    [where system = all_failing_system and con = utf8_console and clock = example_clock
       and repr = example_repr and contract_text = example_text
       and contract_name = example_name
       and e = "Exn True (py ''ConnectionError'') (py ''service unavailable'')"
       and system' = all_replying_system and con' = utf8_console and clock' = example_clock
       and repr' = example_repr and contract_text' = example_text
       and contract_name' = example_name
       and reply = "WithContent (PStr (py ''{risk_level: HIGH}''))"]
  by (simp add: Let_def example_runs_reach_manager example_outcomes_failing
      example_outcomes_replying utf8_console_prints)





section \<open>Lemmas about the extraction\<close>

lemma ascii_encoded:
  "list_all (encodes con) [0..<128] \<Longrightarrow> list_all (\<lambda>c. c < 128) s \<Longrightarrow> printable con s"
  by (auto simp add: printable_def list_all_iff)

lemma py_encoded:
  "list_all (encodes con) [0..<128] \<Longrightarrow> list_all (\<lambda>c. of_char c < (128::nat)) s \<Longrightarrow>
   printable con (py s)"
  by (rule ascii_encoded) (simp_all add: py_def list_all_iff)






lemma numbered_pages_from_0:
  "zip [Suc 0..<Suc 0 + length pages] pages = numbered_pages pages"
  by (simp add: numbered_pages_def del: upt_Suc)










section \<open>The example documents\<close>














section \<open>Properties of the extraction\<close>







section \<open>Lemmas about the persistence\<close>

lemma persistence_console_encodes:
  assumes "persistence_console con"
  shows "list_all (encodes con) [0..<128]" "encodes con 128190" "encodes con 10060"
  using assms by (simp_all add: persistence_console_def list_all_iff)

lemma persistence_lines_print:
  assumes "persistence_console con"
  shows "printable con m \<Longrightarrow>
     py_print con (10060 # py '' Error saving analysis results: '' @ m) = None"
    "printable con filepath \<Longrightarrow>
     py_print con (128190 # py '' Analysis results saved to: '' @ filepath) = None"
  by (simp_all add: py_print_def printable_simps persistence_console_encodes [OF assms]
      py_encoded [OF persistence_console_encodes(1) [OF assms]])

lemma contract_name_of_str:
  "map_of info (py ''name'') = Some (PStr name) \<Longrightarrow> contract_name_of info = Inr name"
  by (simp add: contract_name_of_def)

lemma set_py_strip: "set (py_strip s) \<subseteq> set s"
  by (auto simp add: py_strip_def dest!: set_dropWhileD)

lemma sanitized_kept: "list_all (spec_kept U) (py_strip (spec_sanitized U name))"
  using set_py_strip [of "spec_sanitized U name"]
  by (auto simp add: list_all_iff spec_sanitized_def)

lemma spec_sanitized_filter:
  "filter (\<lambda>c. py_isalnum U c \<or> c = 32 \<or> c = 45 \<or> c = 95) name = spec_sanitized U name"
  unfolding spec_sanitized_def by (rule filter_cong) (simp_all add: spec_kept_def)





lemma utf8_console_persistence: "persistence_console utf8_console"
  by (simp add: persistence_console_def utf8_console_def list_all_iff)

lemma digit_range: "48 \<le> digit (n mod 10) \<and> digit (n mod 10) \<le> 57"
proof -
  have "n mod 10 < 10" by simp
  then show ?thesis unfolding digit_def by linarith
qed

lemma strftime_stamp_shape:
  "length (strftime_stamp d) = 15"
  "strftime_stamp d ! 8 = 95"
  "list_all (\<lambda>c. 48 \<le> c \<and> c \<le> 57) (take 8 (strftime_stamp d))"
  "list_all (\<lambda>c. 48 \<le> c \<and> c \<le> 57) (drop 9 (strftime_stamp d))"
  by (simp_all add: strftime_stamp_def four_digits_def two_digits_def py_def digit_range)

lemma save_try_written:
  assumes "mkdir env output_dir = None"
    and "map_of (contract_info result) (py ''name'') = Some (PStr name)"
    and "filepath = path_join env output_dir
           (py ''contract_analysis_''
            @ py_strip (filter (\<lambda>c. py_isalnum (unicode_isalnum env) c
                                       \<or> c = 32 \<or> c = 45 \<or> c = 95) name)
            @ py ''_'' @ strftime_stamp (now env) @ py ''.json'')"
    and "asdict env result = None" and "open_w env filepath = None"
    and "json_dump env result filepath = None"
  shows "save_try env con result output_dir =
     (case py_print con ([128190] @ py '' Analysis results saved to: '' @ filepath) of
        Some e \<Rightarrow>
          ([MadeDir output_dir, OpenedForWriting filepath, Dumped result filepath], Inl e)
      | None \<Rightarrow>
          ([MadeDir output_dir, OpenedForWriting filepath, Dumped result filepath,
            Printed ([128190] @ py '' Analysis results saved to: '' @ filepath)],
           Inr filepath))"
  using assms(1, 2, 4, 5, 6) unfolding assms(3)
  by (simp add: save_try_def Let_def contract_name_of_str)

lemma save_succeeds:
  assumes "persistence_console con"
    and "mkdir env output_dir = None"
    and "map_of (contract_info result) (py ''name'') = Some (PStr name)"
    and "filepath = path_join env output_dir
           (py ''contract_analysis_''
            @ py_strip (filter (\<lambda>c. py_isalnum (unicode_isalnum env) c
                                       \<or> c = 32 \<or> c = 45 \<or> c = 95) name)
            @ py ''_'' @ strftime_stamp (now env) @ py ''.json'')"
    and "asdict env result = None" and "open_w env filepath = None"
    and "json_dump env result filepath = None"
    and "printable con filepath"
  shows "save_analysis_results env con result output_dir =
     ([MadeDir output_dir, OpenedForWriting filepath, Dumped result filepath,
       Printed ([128190] @ py '' Analysis results saved to: '' @ filepath)],
      Returned (Some filepath))"
  unfolding save_analysis_results_def save_try_written [OF assms(2-7)]
  by (simp add: persistence_lines_print [OF assms(1)] assms(8))




section \<open>The example environments\<close>

lemma working_env_steps:
  "mkdir working_env dir = None" "asdict working_env result = None"
  "open_w working_env path = None" "json_dump working_env result path = None"
  "unicode_isalnum working_env c = False"
  "path_join working_env dir filename = dir @ py ''/'' @ filename"
  "strftime_stamp (now working_env) = py ''20240309_140507''"
  by (simp_all add: working_env_def posix_join_def strftime_stamp_def four_digits_def
      two_digits_def digit_def py_def)

lemma example_result_name:
  "map_of (contract_info (example_result name)) (py ''name'') = Some (PStr name)"
  by (simp add: example_result_def)

lemma example_names_sanitized:
  "py_strip (filter (\<lambda>c. py_isalnum U c \<or> c = 32 \<or> c = 45 \<or> c = 95)
     (py ''Acme/Co.: NDA?'')) = py ''AcmeCo NDA''"
  "py_strip (filter (\<lambda>c. py_isalnum U c \<or> c = 32 \<or> c = 45 \<or> c = 95)
     (py ''Acme/Co.: NDA ?'')) = py ''AcmeCo NDA''"
  "filter (\<lambda>c. py_isalnum U c \<or> c = 32 \<or> c = 45 \<or> c = 95)
     (py ''Acme/Co.: NDA ?'') = py ''AcmeCo NDA ''"
  "py_strip (filter (\<lambda>c. py_isalnum U c \<or> c = 32 \<or> c = 45 \<or> c = 95)
     (py ''Supply Agreement'')) = py ''Supply Agreement''"
  by (simp_all add: py_def py_isalnum_def py_strip_def py_isspace_def)


lemma example_error_texts:
  "printable utf8_console (py ''[Errno 13] Permission denied'')"
  "printable utf8_console (py ''asdict() should be called on dataclass instances'')"
  "printable utf8_console (py ''[Errno 28] No space left on device'')"
  "printable utf8_console (py ''Object of type set is not JSON serializable'')"
  "printable utf8_console
     (py ''analysis_results/contract_analysis_AcmeCo NDA_20240309_140507.json'')"
  "\<not> printable utf8_console
     (surrogate_dir @ py ''/contract_analysis_Supply Agreement_20240309_140507.json'')"
  by (simp_all add: printable_def utf8_console_def py_def surrogate_dir_def)

lemma example_paths:
  "path_join working_env default_output_dir
     (py ''contract_analysis_''
      @ py_strip (filter (\<lambda>c. py_isalnum (unicode_isalnum working_env) c
                                 \<or> c = 32 \<or> c = 45 \<or> c = 95) (py ''Acme/Co.: NDA ?''))
      @ py ''_'' @ strftime_stamp (now working_env) @ py ''.json'') =
     py ''analysis_results/contract_analysis_AcmeCo NDA_20240309_140507.json''"
  "path_join working_env default_output_dir
     (py ''contract_analysis_''
      @ py_strip (filter (\<lambda>c. py_isalnum (unicode_isalnum working_env) c
                                 \<or> c = 32 \<or> c = 45 \<or> c = 95) (py ''Acme/Co.: NDA?''))
      @ py ''_'' @ strftime_stamp (now working_env) @ py ''.json'') =
     py ''analysis_results/contract_analysis_AcmeCo NDA_20240309_140507.json''"
  "path_join working_env surrogate_dir
     (py ''contract_analysis_''
      @ py_strip (filter (\<lambda>c. py_isalnum (unicode_isalnum working_env) c
                                 \<or> c = 32 \<or> c = 45 \<or> c = 95) (py ''Supply Agreement''))
      @ py ''_'' @ strftime_stamp (now working_env) @ py ''.json'') =
     surrogate_dir @ py ''/contract_analysis_Supply Agreement_20240309_140507.json''"
  unfolding example_names_sanitized(1,2,4) working_env_steps default_output_dir_def
  by (simp_all add: py_def)

lemma example_save_stripped:
  "save_analysis_results working_env utf8_console (example_result (py ''Acme/Co.: NDA ?''))
     default_output_dir =
     ([MadeDir default_output_dir,
       OpenedForWriting
         (py ''analysis_results/contract_analysis_AcmeCo NDA_20240309_140507.json''),
       Dumped (example_result (py ''Acme/Co.: NDA ?''))
         (py ''analysis_results/contract_analysis_AcmeCo NDA_20240309_140507.json''),
       Printed ([128190] @ py '' Analysis results saved to: ''
                @ py ''analysis_results/contract_analysis_AcmeCo NDA_20240309_140507.json'')],
      Returned
        (Some (py ''analysis_results/contract_analysis_AcmeCo NDA_20240309_140507.json'')))"
  by (rule save_succeeds [where name = "py ''Acme/Co.: NDA ?''"])
     (simp_all add: utf8_console_persistence working_env_steps(1-4) example_result_name
       example_paths example_error_texts)




section \<open>Properties of the persistence\<close>

text \<open>
  Claim C8. For every contract name, \<open>save_analysis_results\<close> builds the output filename
  by removing from the name every character that is not alphanumeric, a space, a hyphen
  or an underscore, and the filename is
  \<open>contract_analysis_<sanitized-name>_<YYYYMMDD_HHMMSS>.json\<close>; in particular the name
  \<open>Acme/Co.: NDA?\<close> is sanitized to \<open>AcmeCo NDA\<close>.

  The code also strips the whitespace at both ends of what the removal leaves. The name
  \<open>Acme/Co.: NDA ?\<close> without the characters to remove is \<open>AcmeCo NDA \<close>, with a space at
  its end, while the file is written as \<open>contract_analysis_AcmeCo NDA_20240309_140507.json\<close>.
\<close>

theorem save_filename_strip_counterexample:
  "spec_sanitized (unicode_isalnum working_env) (py ''Acme/Co.: NDA ?'') = py ''AcmeCo NDA ''
   \<and> snd (save_analysis_results working_env utf8_console
            (example_result (py ''Acme/Co.: NDA ?'')) default_output_dir) =
       Returned
         (Some (py ''analysis_results/contract_analysis_AcmeCo NDA_20240309_140507.json''))
   \<and> py ''analysis_results/contract_analysis_AcmeCo NDA_20240309_140507.json'' \<noteq>
       py ''analysis_results/contract_analysis_'' @ py ''AcmeCo NDA '' @ py ''_20240309_140507.json''"
  unfolding example_save_stripped spec_sanitized_filter [symmetric] example_names_sanitized(3)
  by (simp add: py_def)

text \<open>
  Claim C8, amended. For every contract name, \<open>save_analysis_results\<close> builds the output
  filename from the name without the characters that are not alphanumeric, a space, a
  hyphen or an underscore, stripped of the whitespace at both ends: the filename is
  \<open>contract_analysis_<sanitized-name>_<YYYYMMDD_HHMMSS>.json\<close>, and when every step of the
  persistence succeeds the call writes and returns the path of this name in the output
  directory. The sanitized name holds only characters that are alphanumeric, a space, a
  hyphen or an underscore; the stamp is eight digits, an underscore and six digits; and
  the name \<open>Acme/Co.: NDA?\<close> is sanitized to \<open>AcmeCo NDA\<close>.
\<close>

theorem save_filename_sanitized:
  "(let contract_name_clean =
          py_strip (filter (\<lambda>c. py_isalnum (unicode_isalnum env) c
                                   \<or> c = 32 \<or> c = 45 \<or> c = 95) name);
        filename = py ''contract_analysis_'' @ contract_name_clean @ py ''_''
                   @ strftime_stamp (now env) @ py ''.json'';
        filepath = path_join env output_dir filename
    in (persistence_console con \<and> printable con filepath
        \<and> mkdir env output_dir = None
        \<and> map_of (contract_info result) (py ''name'') = Some (PStr name)
        \<and> asdict env result = None \<and> open_w env filepath = None
        \<and> json_dump env result filepath = None \<longrightarrow>
          snd (save_analysis_results env con result output_dir) = Returned (Some filepath)
          \<and> OpenedForWriting filepath
               \<in> set (fst (save_analysis_results env con result output_dir))
          \<and> Dumped result filepath
               \<in> set (fst (save_analysis_results env con result output_dir)))
     \<and> contract_name_clean = py_strip (spec_sanitized (unicode_isalnum env) name)
     \<and> list_all (\<lambda>c. py_isalnum (unicode_isalnum env) c \<or> c = 32 \<or> c = 45 \<or> c = 95)
          contract_name_clean
     \<and> (valid_datetime (now env) \<longrightarrow>
          length (strftime_stamp (now env)) = 15
          \<and> strftime_stamp (now env) ! 8 = 95
          \<and> list_all (\<lambda>c. 48 \<le> c \<and> c \<le> 57) (take 8 (strftime_stamp (now env)))
          \<and> list_all (\<lambda>c. 48 \<le> c \<and> c \<le> 57) (drop 9 (strftime_stamp (now env))))
     \<and> py_strip (filter (\<lambda>c. py_isalnum (unicode_isalnum env) c
                               \<or> c = 32 \<or> c = 45 \<or> c = 95) (py ''Acme/Co.: NDA?'')) =
         py ''AcmeCo NDA'')"
proof -
  have written: "snd (save_analysis_results env con result output_dir) =
        Returned (Some filepath)
      \<and> OpenedForWriting filepath
           \<in> set (fst (save_analysis_results env con result output_dir))
      \<and> Dumped result filepath
           \<in> set (fst (save_analysis_results env con result output_dir))"
    if "filepath = path_join env output_dir
           (py ''contract_analysis_''
            @ py_strip (filter (\<lambda>c. py_isalnum (unicode_isalnum env) c
                                       \<or> c = 32 \<or> c = 45 \<or> c = 95) name)
            @ py ''_'' @ strftime_stamp (now env) @ py ''.json'')"
      and "persistence_console con" and "printable con filepath"
      and "mkdir env output_dir = None"
      and "map_of (contract_info result) (py ''name'') = Some (PStr name)"
      and "asdict env result = None" and "open_w env filepath = None"
      and "json_dump env result filepath = None"
    for filepath
    by (simp add: save_succeeds [OF that(2) that(4) that(5) that(1) that(6) that(7) that(8)
          that(3)])
  have kept: "list_all (\<lambda>c. py_isalnum (unicode_isalnum env) c \<or> c = 32 \<or> c = 45 \<or> c = 95)
      (py_strip (filter (\<lambda>c. py_isalnum (unicode_isalnum env) c
                              \<or> c = 32 \<or> c = 45 \<or> c = 95) name))"
    using sanitized_kept [of "unicode_isalnum env" name]
    by (simp add: spec_sanitized_filter spec_kept_def [abs_def])
  show ?thesis
    unfolding Let_def
    using written kept strftime_stamp_shape [of "now env"]
      example_names_sanitized(1) [of "unicode_isalnum env"]
    by (simp add: spec_sanitized_filter)
qed

theorem save_filename_sanitized_witness:
  "persistence_console utf8_console
   \<and> printable utf8_console
       (py ''analysis_results/contract_analysis_AcmeCo NDA_20240309_140507.json'')
   \<and> mkdir working_env default_output_dir = None
   \<and> map_of (contract_info (example_result (py ''Acme/Co.: NDA?''))) (py ''name'') =
       Some (PStr (py ''Acme/Co.: NDA?''))
   \<and> asdict working_env (example_result (py ''Acme/Co.: NDA?'')) = None
   \<and> open_w working_env
       (py ''analysis_results/contract_analysis_AcmeCo NDA_20240309_140507.json'') = None
   \<and> json_dump working_env (example_result (py ''Acme/Co.: NDA?''))
       (py ''analysis_results/contract_analysis_AcmeCo NDA_20240309_140507.json'') = None
   \<and> valid_datetime (now working_env)
   \<and> snd (save_analysis_results working_env utf8_console
            (example_result (py ''Acme/Co.: NDA?'')) default_output_dir) =
       Returned
         (Some (py ''analysis_results/contract_analysis_AcmeCo NDA_20240309_140507.json''))
   \<and> length (strftime_stamp (now working_env)) = 15"
  using save_filename_sanitized
    [where env = working_env and con = utf8_console and output_dir = default_output_dir
       and result = "example_result (py ''Acme/Co.: NDA?'')" and name = "py ''Acme/Co.: NDA?''"]
  unfolding Let_def example_paths
  by (simp add: utf8_console_persistence example_error_texts working_env_steps(1-4)
      example_result_name valid_datetime_def working_env_def)






end
